theory Spec2Isabelle
  imports Main "HOL-Library.Word"
begin

unbundle bit_operations_syntax

section \<open>Crash analysis of honggfuzz under ptrace (linux/ptrace\_utils.c)\<close>

text \<open>
  The development follows the 64-bit builds of the file: \<^verbatim>\<open>REG_TYPE\<close> is
  \<^verbatim>\<open>uint64_t\<close>, \<^verbatim>\<open>REG_PD REG_PM\<close> is the format \<^verbatim>\<open>0x%016lx\<close>, and
  \<^verbatim>\<open>REGSIZEINCHAR\<close> is 19. Counters of type \<^verbatim>\<open>size_t\<close> and the stack hash
  are 64-bit words, so that additions wrap as they do in C.
\<close>

type_synonym u64 = "64 word"

subsection \<open>Formatting of numbers, as printf does it\<close>

definition hexdigit :: "nat \<Rightarrow> char" where
  "hexdigit d = ''0123456789abcdef'' ! (d mod 16)"

text \<open>The conversion \<^verbatim>\<open>%x\<close>: lowercase digits, no leading zeros, at least one digit.\<close>

fun hex_nat :: "nat \<Rightarrow> string" where
  "hex_nat n = (if n < 16 then [hexdigit n] else hex_nat (n div 16) @ [hexdigit (n mod 16)])"

declare hex_nat.simps [simp del]

text \<open>The conversion \<^verbatim>\<open>%0wx\<close>: the digits of \<^verbatim>\<open>%x\<close>, padded with zeros on the left up to
  the minimal width \<open>w\<close>.\<close>

definition hex_pad :: "nat \<Rightarrow> nat \<Rightarrow> string" where
  "hex_pad w n = (let s = hex_nat n in replicate (w - length s) CHR ''0'' @ s)"

text \<open>\<^verbatim>\<open>snprintf(pcStr, REGSIZEINCHAR, REG_PD REG_PM, (REG_TYPE)(long) pc)\<close>. A 64-bit value has
  at most 16 hexadecimal digits, so the 18 characters always fit the buffer of 19.\<close>

definition REGSIZEINCHAR :: nat where
  "REGSIZEINCHAR = 2 * 8 + 3"

definition regStr :: "u64 \<Rightarrow> string" where
  "regStr pc = take (REGSIZEINCHAR - 1) (''0x'' @ hex_pad 16 (unat pc))"

text \<open>\<^verbatim>\<open>&pcStr[strlen(pcStr) - 3]\<close> read for 3 bytes: the last three characters.\<close>

definition last3 :: "string \<Rightarrow> string" where
  "last3 s = take 3 (drop (length s - 3) s)"

subsection \<open>Frames and the per-worker state\<close>

text \<open>\<^verbatim>\<open>funcs_t\<close>: the program counter of a frame, its symbol and the offset or line.
  The field \<^verbatim>\<open>func\<close> is an array of \<^verbatim>\<open>_HF_FUNC_NAME_SZ\<close> bytes; the model keeps the
  string in it, and a string of that many characters stands for an array without NUL
  byte.\<close>

record funcs_t =
  pc :: u64
  func :: string
  line :: nat

text \<open>Modelled from the spec: \<^verbatim>\<open>_HF_SINGLE_FRAME_MASK\<close> is declared in common.h, which is
  not part of the sources at hand; the spec describes it as the reserved high bit of the
  64-bit stack hash.\<close>

definition HF_SINGLE_FRAME_MASK :: u64 where
  "HF_SINGLE_FRAME_MASK = push_bit 63 1"

subsection \<open>arch\_hashCallstack\<close>

text \<open>
  \<^verbatim>\<open>util_hash\<close> lives in util.c and is a parameter \<open>uh\<close> of the model: a function from
  the bytes it is given to a 64-bit value. The loop of the source runs over the index
  \<open>i\<close> while \<open>i < funcCnt\<close> and \<open>i < numMajorFrames\<close>.
\<close>

function hashLoop :: "(string \<Rightarrow> u64) \<Rightarrow> nat \<Rightarrow> funcs_t list \<Rightarrow> nat \<Rightarrow> nat \<Rightarrow> u64 \<Rightarrow> u64" where
  "hashLoop uh numMajorFrames funcs funcCnt i hash =
     (if i < funcCnt \<and> i < numMajorFrames
      then hashLoop uh numMajorFrames funcs funcCnt (i + 1)
             (hash XOR uh (last3 (regStr (pc (funcs ! i)))))
      else hash)"
  by pat_completeness auto
termination
  by (relation "measure (\<lambda>(uh, k, funcs, funcCnt, i, hash). funcCnt - i)") auto

declare hashLoop.simps [simp del]

text \<open>The value the function stores into \<^verbatim>\<open>fuzzer->backtrace\<close>.\<close>

definition arch_hashCallstack ::
  "(string \<Rightarrow> u64) \<Rightarrow> nat \<Rightarrow> funcs_t list \<Rightarrow> nat \<Rightarrow> bool \<Rightarrow> u64" where
  "arch_hashCallstack uh numMajorFrames funcs funcCnt enableMasking =
     (let hash = hashLoop uh numMajorFrames funcs funcCnt 0 0
      in if enableMasking \<and> funcCnt = 1 then hash OR HF_SINGLE_FRAME_MASK else hash)"


subsection \<open>The C library, as far as the file uses it\<close>

text \<open>The conversions \<^verbatim>\<open>%u\<close> and \<^verbatim>\<open>%d\<close>.\<close>

definition decdigit :: "nat \<Rightarrow> char" where
  "decdigit d = ''0123456789'' ! (d mod 10)"

fun dec_nat :: "nat \<Rightarrow> string" where
  "dec_nat n = (if n < 10 then [decdigit n] else dec_nat (n div 10) @ [decdigit (n mod 10)])"

declare dec_nat.simps [simp del]

definition dec_int :: "int \<Rightarrow> string" where
  "dec_int i = (if i < 0 then CHR ''-'' # dec_nat (nat (- i)) else dec_nat (nat i))"

text \<open>The conversion \<^verbatim>\<open>%p\<close> of the GNU C library: \<^verbatim>\<open>(nil)\<close> for the null pointer,
  \<^verbatim>\<open>0x\<close> and the hexadecimal digits of the address otherwise.\<close>

definition fmt_p :: "u64 \<Rightarrow> string" where
  "fmt_p a = (if a = 0 then ''(nil)'' else ''0x'' @ hex_nat (unat a))"

text \<open>\<^verbatim>\<open>snprintf(buf, size, ...)\<close> keeps at most \<open>size - 1\<close> characters of its output.\<close>

definition snprintf :: "nat \<Rightarrow> string \<Rightarrow> string" where
  "snprintf sz s = take (sz - 1) s"

definition PATH_MAX :: nat where
  "PATH_MAX = 4096"

text \<open>\<^verbatim>\<open>util_ssnprintf(str, size, ...)\<close> is declared in util.h: it appends the formatted text
  to the string already in \<^verbatim>\<open>str\<close>, within the \<open>size\<close> bytes of the buffer.\<close>

definition util_ssnprintf :: "nat \<Rightarrow> string \<Rightarrow> string \<Rightarrow> string" where
  "util_ssnprintf sz str s = take (sz - 1) (str @ s)"

text \<open>\<^verbatim>\<open>isspace\<close> in the C locale: space, and the control characters 9 to 13.\<close>

definition isspace :: "char \<Rightarrow> bool" where
  "isspace c = (let n = (of_char c :: nat) in n = 32 \<or> (9 \<le> n \<and> n \<le> 13))"

text \<open>A C string ends at its first NUL byte.\<close>

definition NUL :: char where
  "NUL = CHR 0x00"

definition cstr :: "string \<Rightarrow> string" where
  "cstr s = takeWhile (\<lambda>c. c \<noteq> NUL) s"

text \<open>\<^verbatim>\<open>strchr\<close> and \<^verbatim>\<open>strrchr\<close>: the index of the first and of the last occurrence of a
  character, \<open>None\<close> for the null pointer.\<close>

definition strchr_idx :: "string \<Rightarrow> char \<Rightarrow> nat option" where
  "strchr_idx s c = (if c \<in> set s then Some (length (takeWhile (\<lambda>x. x \<noteq> c) s)) else None)"

definition strrchr_idx :: "string \<Rightarrow> char \<Rightarrow> nat option" where
  "strrchr_idx s c =
     (if c \<in> set s then Some (length s - 1 - length (takeWhile (\<lambda>x. x \<noteq> c) (rev s))) else None)"

text \<open>\<^verbatim>\<open>strstr\<close>: the index of the first occurrence of the needle.\<close>

fun strstr_idx :: "string \<Rightarrow> string \<Rightarrow> nat option" where
  "strstr_idx [] needle = (if needle = [] then Some 0 else None)"
| "strstr_idx (h # hs) needle =
     (if take (length needle) (h # hs) = needle then Some 0
      else map_option Suc (strstr_idx hs needle))"

text \<open>\<^verbatim>\<open>strncmp(s, t, n) == 0\<close> for two strings as C sees them, each cut at its first NUL
  byte: they agree on their first \<open>n\<close> characters.\<close>

definition strncmp_eq :: "string \<Rightarrow> string \<Rightarrow> nat \<Rightarrow> bool" where
  "strncmp_eq s t n = (take n s = take n t)"

text \<open>Digits of \<^verbatim>\<open>strtoull\<close> and \<^verbatim>\<open>strtol\<close>.\<close>

definition hexval :: "char \<Rightarrow> nat option" where
  "hexval c =
     (let n = (of_char c :: nat) in
      if 48 \<le> n \<and> n \<le> 57 then Some (n - 48)
      else if 97 \<le> n \<and> n \<le> 102 then Some (n - 87)
      else if 65 \<le> n \<and> n \<le> 70 then Some (n - 55)
      else None)"

definition decval :: "char \<Rightarrow> nat option" where
  "decval c = (let n = (of_char c :: nat) in if 48 \<le> n \<and> n \<le> 57 then Some (n - 48) else None)"

fun digits_val :: "nat \<Rightarrow> (char \<Rightarrow> nat option) \<Rightarrow> nat \<Rightarrow> string \<Rightarrow> nat" where
  "digits_val base dv acc [] = acc"
| "digits_val base dv acc (c # cs) =
     (case dv c of None \<Rightarrow> acc | Some d \<Rightarrow> digits_val base dv (acc * base + d) cs)"

definition strip_sign :: "string \<Rightarrow> bool \<times> string" where
  "strip_sign s =
     (case s of
        [] \<Rightarrow> (False, [])
      | c # r \<Rightarrow> if c = CHR ''-'' then (True, r) else if c = CHR ''+'' then (False, r) else (False, s))"

text \<open>\<^verbatim>\<open>strtoull(s, NULL, 16)\<close>: leading white space, an optional sign, an optional
  \<^verbatim>\<open>0x\<close> in front of a digit, then the digits; \<^verbatim>\<open>ULLONG_MAX\<close> on overflow; 0 when there
  is no digit.\<close>

definition strtoull16 :: "string \<Rightarrow> u64" where
  "strtoull16 s =
     (let (neg, s2) = strip_sign (dropWhile isspace s);
          s3 = (case s2 of
                  a # b # c # r \<Rightarrow>
                    if a = CHR ''0'' \<and> (b = CHR ''x'' \<or> b = CHR ''X'') \<and> hexval c \<noteq> None
                    then c # r else s2
                | _ \<Rightarrow> s2);
          n = digits_val 16 hexval 0 s3
      in if 2 ^ 64 \<le> n then - 1 else if neg then - word_of_nat n else word_of_nat n)"

text \<open>\<^verbatim>\<open>strtol(s, NULL, 10)\<close>, clamped to the range of \<^verbatim>\<open>long\<close>, and the conversion of
  the result to the 32-bit \<^verbatim>\<open>pid_t\<close>.\<close>

definition strtol10 :: "string \<Rightarrow> int" where
  "strtol10 s =
     (let (neg, s2) = strip_sign (dropWhile isspace s);
          n = int (digits_val 10 decval 0 s2);
          v = (if neg then - n else n)
      in max (- (2 ^ 63)) (min (2 ^ 63 - 1) v))"

definition to_pid_t :: "int \<Rightarrow> int" where
  "to_pid_t v = sint (word_of_int v :: 32 word)"

subsection \<open>Build parameters, configuration and state\<close>

text \<open>
  What the C language leaves undefined is a value of the model: a function that can run
  into it returns \<open>Inl\<close> of the failure, and \<open>Inr\<close> of its result otherwise.
\<close>

datatype c_error =
    NullPointerArithmetic
  | NullDereference
  | StoreOutsideBlock
  | LoadOutsideBlock
  | InvalidHeapPointer
  | InvalidFree
  | DanglingPointer
  | UnterminatedString
  | IndexOutOfBounds

text \<open>
  The file is compiled per architecture. \<open>p_cpu\<close> selects the branches of the
  preprocessor, \<open>p_capstone\<close> stands for \<^verbatim>\<open>__HF_USE_CAPSTONE__\<close>. The other fields are
  the pieces of common.h and util.c that the file uses and the spec leaves open:
  \<^verbatim>\<open>util_hash\<close>, the size of the report buffer, \<^verbatim>\<open>kLOGPREFIX\<close> and the three sanitizer
  exit codes.
\<close>

datatype cpu = X86_64 | AARCH64 | POWERPC64

record platform =
  p_cpu :: cpu
  p_capstone :: bool
  p_util_hash :: "string \<Rightarrow> u64"
  p_report_sz :: nat
  p_logprefix :: string
  p_msan_exit :: int
  p_asan_exit :: int
  p_ubsan_exit :: int

definition is_arm :: "platform \<Rightarrow> bool" where
  "is_arm P = (p_cpu P = AARCH64)"

text \<open>Modelled from the spec: \<^verbatim>\<open>_HF_MAX_FUNCS\<close> and the size of the \<^verbatim>\<open>func\<close> field of
  \<^verbatim>\<open>funcs_t\<close> are declared in common.h; the spec gives 80 frames and symbols of 64
  bytes.\<close>

definition HF_MAX_FUNCS :: nat where
  "HF_MAX_FUNCS = 80"

definition HF_FUNC_NAME_SZ :: nat where
  "HF_FUNC_NAME_SZ = 64"

text \<open>Modelled from the spec: \<^verbatim>\<open>_HF_DYNFILE_SUB_MASK\<close> is declared in common.h; the spec
  says that the atomic AND with it clears the two most significant bits.\<close>

definition HF_DYNFILE_SUB_MASK :: u64 where
  "HF_DYNFILE_SUB_MASK = NOT (push_bit 62 3)"

text \<open>The fields of \<^verbatim>\<open>honggfuzz_t\<close> that the file reads and the counters it updates.
  A pointer field that may be null is an option; \<open>flipRate_zero\<close> is the outcome of the
  comparison \<^verbatim>\<open>hfuzz->flipRate == 0.0L\<close>.\<close>

record honggfuzz_t =
  workDir :: string
  fileExtn :: string
  ignoreAddr :: u64
  saveUnique :: bool
  disableRandomization :: bool
  flipRate_zero :: bool
  useVerifier :: bool
  saveMaps :: bool
  useSanCov :: bool
  numMajorFrames :: nat
  symbolsWhitelist :: "string list option"
  symbolsBlacklist :: "string list option"
  blacklist :: "u64 list option"
  crashesCnt :: u64
  uniqueCrashesCnt :: u64
  blCrashesCnt :: u64
  dynFileIterExpire :: u64

record fuzzer_t =
  fileName :: string
  origFileName :: string
  crashFileName :: string
  backtrace :: u64
  report :: string
  sanCov_crashesCnt :: u64
  mainWorker :: bool

text \<open>The state the functions work on: the shared structure, the worker's structure and
  the files of the file system, by path.\<close>

record world =
  hfuzz :: honggfuzz_t
  fuzzer :: fuzzer_t
  files :: "string \<rightharpoonup> string"

text \<open>\<^verbatim>\<open>siginfo_t\<close> as \<^verbatim>\<open>PT_GETSIGINFO\<close> fills it (all zero when the request fails).\<close>

record siginfo_t =
  si_signo :: nat
  si_code :: int
  si_addr :: u64

definition SI_FROMUSER :: "siginfo_t \<Rightarrow> bool" where
  "SI_FROMUSER si = (si_code si \<le> 0)"

text \<open>The \<^verbatim>\<open>descr\<close> column of the table \<^verbatim>\<open>arch_sigs\<close>, with the signal numbers of Linux.
  The kernel hands out signal numbers below \<^verbatim>\<open>NSIG\<close> only.\<close>

definition arch_sigs_descr :: "nat \<Rightarrow> string" where
  "arch_sigs_descr signo =
     (if signo = 5 then ''SIGTRAP''
      else if signo = 4 then ''SIGILL''
      else if signo = 8 then ''SIGFPE''
      else if signo = 11 then ''SIGSEGV''
      else if signo = 7 then ''SIGBUS''
      else if signo = 6 then ''SIGABRT''
      else ''UNKNOWN'')"

definition arch_sanCodeToStr :: "platform \<Rightarrow> int \<Rightarrow> string" where
  "arch_sanCodeToStr P exitCode =
     (if exitCode = p_msan_exit P then ''MSAN''
      else if exitCode = p_asan_exit P then ''ASAN''
      else if exitCode = p_ubsan_exit P then ''UBSAN''
      else ''UNKNW'')"

subsection \<open>Collaborators outside the file\<close>

text \<open>Modelled from the spec: \<^verbatim>\<open>fastArray64Search\<close> is defined in util.c; the spec calls
  it a binary search of the sorted vector of blacklisted hashes. It returns the index of
  the key, or \<open>-1\<close>.\<close>

function bsearch64 :: "u64 list \<Rightarrow> nat \<Rightarrow> nat \<Rightarrow> u64 \<Rightarrow> int" where
  "bsearch64 arr lo hi key =
     (if hi \<le> lo then - 1
      else let mid = lo + (hi - lo) div 2
           in if arr ! mid = key then int mid
              else if arr ! mid < key then bsearch64 arr (mid + 1) hi key
              else bsearch64 arr lo mid key)"
  by pat_completeness auto
termination
  by (relation "measure (\<lambda>(arr, lo, hi, key). hi - lo)") auto

declare bsearch64.simps [simp del]

definition fastArray64Search :: "u64 list \<Rightarrow> nat \<Rightarrow> u64 \<Rightarrow> int" where
  "fastArray64Search arr arraySz key = bsearch64 arr 0 arraySz key"

text \<open>Modelled from the spec: \<^verbatim>\<open>arch_btContainsWLSymbol\<close> and
  \<^verbatim>\<open>arch_btContainsBLSymbol\<close> are defined outside the file; the spec says that they look
  for a frame whose symbol matches the list. The result is the symbol found, \<open>None\<close> for
  the null pointer.\<close>

definition arch_btContainsSymbol :: "string list \<Rightarrow> nat \<Rightarrow> funcs_t list \<Rightarrow> string option" where
  "arch_btContainsSymbol symbols funcCnt funcs =
     (case filter (\<lambda>f. func f \<in> set symbols) (take funcCnt funcs) of
        [] \<Rightarrow> None
      | f # _ \<Rightarrow> Some (func f))"

definition arch_btContainsWLSymbol :: "honggfuzz_t \<Rightarrow> nat \<Rightarrow> funcs_t list \<Rightarrow> string option" where
  "arch_btContainsWLSymbol hf funcCnt funcs =
     (case symbolsWhitelist hf of
        None \<Rightarrow> None
      | Some symbols \<Rightarrow> arch_btContainsSymbol symbols funcCnt funcs)"

definition arch_btContainsBLSymbol :: "honggfuzz_t \<Rightarrow> nat \<Rightarrow> funcs_t list \<Rightarrow> string option" where
  "arch_btContainsBLSymbol hf funcCnt funcs =
     (case symbolsBlacklist hf of
        None \<Rightarrow> None
      | Some symbols \<Rightarrow> arch_btContainsSymbol symbols funcCnt funcs)"

text \<open>Modelled from the spec: \<^verbatim>\<open>files_copyFile(src, dst, &dstExists)\<close> is defined in
  files.c; the spec gives it the three outcomes ok, exists and error, atomic with
  respect to the existence of the destination. The result is the return value, the flag
  \<^verbatim>\<open>dstExists\<close> and the files afterwards; \<open>io_ok\<close> says whether the transfer itself
  succeeds.\<close>

definition files_copyFile ::
  "bool \<Rightarrow> (string \<rightharpoonup> string) \<Rightarrow> string \<Rightarrow> string \<Rightarrow> bool \<times> bool \<times> (string \<rightharpoonup> string)" where
  "files_copyFile io_ok fls src dst =
     (case fls dst of
        Some _ \<Rightarrow> (False, True, fls)
      | None \<Rightarrow>
          (case fls src of
             Some content \<Rightarrow> if io_ok then (True, False, fls(dst \<mapsto> content)) else (False, False, fls)
           | None \<Rightarrow> (False, False, fls)))"

text \<open>What a signal stop of the tracee shows to \<^verbatim>\<open>arch_ptraceSaveData\<close>: the signal
  information, the outcome of \<^verbatim>\<open>arch_getInstrStr\<close> (the PC, 0 when the registers cannot
  be read, and the instruction text), the frames of \<^verbatim>\<open>arch_unwindStack\<close> with their
  symbols resolved, the link register if \<^verbatim>\<open>arch_getLR\<close> succeeds, the text of
  \<^verbatim>\<open>util_getLocalTime\<close>, whether the copy of the input succeeds, and the text of
  \<^verbatim>\<open>/proc/pid/maps\<close> if \<^verbatim>\<open>files_procMapsToFile\<close> succeeds.\<close>

record stop_env =
  env_si :: siginfo_t
  env_pc :: u64
  env_instr :: string
  env_frames :: "funcs_t list"
  env_lr :: "u64 option"
  env_time :: string
  env_copy_ok :: bool
  env_maps :: "string option"

subsection \<open>arch\_ptraceGenerateReport\<close>

text \<open>The lines of the report for the frames \<open>0 .. funcCnt - 1\<close>. The arguments of
  \<^verbatim>\<open>%u\<close> and \<^verbatim>\<open>%x\<close> are read as 32-bit unsigned values.\<close>

definition report_frame :: "platform \<Rightarrow> funcs_t \<Rightarrow> string" where
  "report_frame P f =
     (if p_capstone P
      then '' <'' @ regStr (pc f) @ ''> '' @
           (if func f \<noteq> [] then ''['' @ func f @ '' + 0x'' @ hex_nat (line f mod 2 ^ 32) @ '']\<newline>''
            else ''[]\<newline>'')
      else '' <'' @ regStr (pc f) @ ''> ['' @ func f @ ''():'' @ dec_nat (line f mod 2 ^ 32) @ '']\<newline>'')"

fun report_frames :: "platform \<Rightarrow> nat \<Rightarrow> funcs_t list \<Rightarrow> nat \<Rightarrow> nat \<Rightarrow> string \<Rightarrow> string" where
  "report_frames P sz funcs 0 i rep = rep"
| "report_frames P sz funcs (Suc n) i rep =
     report_frames P sz funcs n (i + 1) (util_ssnprintf sz rep (report_frame P (funcs ! i)))"

definition arch_ptraceGenerateReport ::
  "platform \<Rightarrow> int \<Rightarrow> fuzzer_t \<Rightarrow> funcs_t list \<Rightarrow> nat \<Rightarrow> siginfo_t \<Rightarrow> string \<Rightarrow> fuzzer_t" where
  "arch_ptraceGenerateReport P pid fz funcs funcCnt si instr =
     (let sz = p_report_sz P;
          r0 = [];
          r1 = util_ssnprintf sz r0 (''ORIG_FNAME: '' @ origFileName fz @ ''\<newline>'');
          r2 = util_ssnprintf sz r1 (''FUZZ_FNAME: '' @ crashFileName fz @ ''\<newline>'');
          r3 = util_ssnprintf sz r2 (''PID: '' @ dec_int pid @ ''\<newline>'');
          r4 = util_ssnprintf sz r3
                 (''SIGNAL: '' @ arch_sigs_descr (si_signo si) @ '' ('' @ dec_nat (si_signo si) @ '')\<newline>'');
          r5 = util_ssnprintf sz r4
                 (''FAULT ADDRESS: '' @ fmt_p (if SI_FROMUSER si then 0 else si_addr si) @ ''\<newline>'');
          r6 = util_ssnprintf sz r5 (''INSTRUCTION: '' @ instr @ ''\<newline>'');
          r7 = util_ssnprintf sz r6 (''STACK HASH: '' @ hex_pad 16 (unat (backtrace fz)) @ ''\<newline>'');
          r8 = util_ssnprintf sz r7 ''STACK:\<newline>'';
          r9 = report_frames P sz funcs funcCnt 0 r8;
          r10 = (if p_cpu P = AARCH64 \<and> funcCnt = 0
                 then util_ssnprintf sz r9
                        '' !ERROR: If 32bit fuzz target in aarch64 system, try ARM 32bit build\<newline>''
                 else r9)
      in fz\<lparr>report := r10\<rparr>)"

subsection \<open>arch\_ptraceSaveData\<close>

definition funcs_zero :: funcs_t where
  "funcs_zero = \<lparr>pc = 0, func = [], line = 0\<rparr>"

text \<open>The array \<^verbatim>\<open>funcs\<close> of \<^verbatim>\<open>_HF_MAX_FUNCS\<close> zeroed entries after the unwinder has
  filled in its frames, the frame count, and the local flag \<^verbatim>\<open>saveUnique\<close>: lines 905
  to 933 of the source.\<close>

definition saveData_unwind :: "stop_env \<Rightarrow> bool \<Rightarrow> funcs_t list \<times> nat \<times> bool" where
  "saveData_unwind E saveUnique0 =
     (let funcs = env_frames E @ replicate (HF_MAX_FUNCS - length (env_frames E)) funcs_zero;
          funcCnt = length (env_frames E)
      in if funcCnt = 0
         then (if env_pc E \<noteq> 0
               then (funcs[0 := (funcs ! 0)\<lparr>pc := env_pc E\<rparr>], 1, saveUnique0)
               else (funcs, funcCnt, False))
         else (funcs, funcCnt, saveUnique0))"

text \<open>The stack hash that the function leaves in \<^verbatim>\<open>fuzzer->backtrace\<close>, and the flag
  \<^verbatim>\<open>saveUnique\<close> after the handling of single frames: lines 944 to 977. On ARM the hash of
  the link register is XORed into the value that \<^verbatim>\<open>arch_hashCallstack\<close> has stored.\<close>

definition saveData_hash :: "platform \<Rightarrow> honggfuzz_t \<Rightarrow> stop_env \<Rightarrow> u64 \<times> bool" where
  "saveData_hash P hf E =
     (let (funcs, funcCnt, saveUnique1) = saveData_unwind E (saveUnique hf);
          bt = arch_hashCallstack (p_util_hash P) (numMajorFrames hf) funcs funcCnt saveUnique1
      in if saveUnique1 \<and> funcCnt = 1
         then (if is_arm P
               then (let lr = (case env_lr E of None \<Rightarrow> 0 | Some v \<Rightarrow> v);
                         saveUnique2 = (if env_lr E = None \<or> lr = 0 then False else saveUnique1)
                     in (bt XOR p_util_hash P (last3 (regStr lr)), saveUnique2))
               else (bt, False))
         else (bt, saveUnique1))"

text \<open>The name of the crash file: lines 1038 to 1064.\<close>

definition saveData_crashFileName ::
  "int \<Rightarrow> honggfuzz_t \<Rightarrow> fuzzer_t \<Rightarrow> stop_env \<Rightarrow> bool \<Rightarrow> string" where
  "saveData_crashFileName pid hf fz E saveUnique2 =
     (let si = env_si E;
          pc1 = (if \<not> disableRandomization hf then 0 else env_pc E);
          sig_addr1 = (if \<not> disableRandomization hf then 0 else si_addr si);
          sig_addr2 = (if SI_FROMUSER si then 0 else sig_addr1);
          stem = workDir hf @ ''/'' @ arch_sigs_descr (si_signo si) @ ''.PC.'' @ hex_nat (unat pc1)
                 @ ''.STACK.'' @ hex_nat (unat (backtrace fz)) @ ''.CODE.'' @ dec_int (si_code si)
                 @ ''.ADDR.'' @ fmt_p sig_addr2 @ ''.INSTR.'' @ env_instr E @ ''.''
      in if flipRate_zero hf \<and> useVerifier hf
         then snprintf PATH_MAX (workDir hf @ ''/'' @ origFileName fz)
         else if saveUnique2 then snprintf PATH_MAX (stem @ fileExtn hf)
         else snprintf PATH_MAX (stem @ env_time E @ ''.'' @ dec_int pid @ ''.'' @ fileExtn hf))"

text \<open>From the label \<^verbatim>\<open>saveCrash\<close> to the end of the function.\<close>

definition saveData_saveCrash ::
  "platform \<Rightarrow> int \<Rightarrow> stop_env \<Rightarrow> bool \<Rightarrow> funcs_t list \<Rightarrow> nat \<Rightarrow> world \<Rightarrow> c_error + world" where
  "saveData_saveCrash P pid E saveUnique2 funcs funcCnt w =
     (let hf1 = (hfuzz w)\<lparr>dynFileIterExpire := dynFileIterExpire (hfuzz w) AND HF_DYNFILE_SUB_MASK\<rparr>;
          fz1 = (fuzzer w)\<lparr>crashFileName := saveData_crashFileName pid hf1 (fuzzer w) E saveUnique2\<rparr>
      in case files_copyFile (env_copy_ok E) (files w) (fileName fz1) (crashFileName fz1) of
           (True, dstFileExists, files1) \<Rightarrow>
             (let hf2 = hf1\<lparr>uniqueCrashesCnt := uniqueCrashesCnt hf1 + 1\<rparr>;
                  hf3 = hf2\<lparr>dynFileIterExpire := dynFileIterExpire hf2 AND 0\<rparr>;
                  fz2 = arch_ptraceGenerateReport P pid fz1 funcs funcCnt (env_si E) (env_instr E);
                  w2 = \<lparr>hfuzz = hf3, fuzzer = fz2, files = files1\<rparr>
              in if saveMaps hf3
                 then (case strrchr_idx (crashFileName fz2) CHR ''.'' of
                         None \<Rightarrow> Inl NullPointerArithmetic
                       | Some baseNameLen \<Rightarrow>
                           (let mapsFile = snprintf PATH_MAX
                                  (workDir hf3 @ ''/'' @ take baseNameLen (crashFileName fz2) @ ''.maps'')
                            in case env_maps E of
                                 None \<Rightarrow> Inr w2
                               | Some content \<Rightarrow> Inr (w2\<lparr>files := (files w2)(mapsFile \<mapsto> content)\<rparr>)))
                 else Inr w2)
         | (False, dstFileExists, files1) \<Rightarrow>
             (if dstFileExists
              then Inr \<lparr>hfuzz = hf1, fuzzer = fz1\<lparr>crashFileName := []\<rparr>, files = files1\<rparr>
              else Inr \<lparr>hfuzz = hf1, fuzzer = fz1, files = files1\<rparr>))"

text \<open>A part of a function either returns from the function, with the state it leaves, or
  hands on to the next part.\<close>

datatype ('r, 'a) part = Return 'r | Next 'a

text \<open>From the start of the function to the label \<^verbatim>\<open>saveCrash\<close>: lines 876 to 1032. The
  part returns when the crash is dropped; it hands on the flag \<^verbatim>\<open>saveUnique\<close>, the frames
  and the state otherwise.\<close>

definition saveData_filter ::
  "platform \<Rightarrow> stop_env \<Rightarrow> world \<Rightarrow> (world, bool \<times> funcs_t list \<times> nat \<times> world) part" where
  "saveData_filter P E w =
     (let hf = hfuzz w; fz = fuzzer w; si = env_si E
      in if \<not> SI_FROMUSER si \<and> env_pc E \<noteq> 0 \<and> si_addr si < ignoreAddr hf then Return w
         else
           (let (funcs, funcCnt, saveUnique1) = saveData_unwind E (saveUnique hf);
                oldBacktrace = backtrace fz;
                (bt, saveUnique2) = saveData_hash P hf E;
                fz1 = fz\<lparr>backtrace := bt,
                         sanCov_crashesCnt :=
                           (if useSanCov hf then sanCov_crashesCnt fz + 1 else sanCov_crashesCnt fz)\<rparr>
            in if crashFileName fz1 \<noteq> [] \<and> oldBacktrace = backtrace fz1
               then Return (w\<lparr>fuzzer := fz1\<rparr>)
               else
                 (let hf1 = hf\<lparr>crashesCnt := crashesCnt hf + 1\<rparr>;
                      w1 = w\<lparr>hfuzz := hf1, fuzzer := fz1\<rparr>
                  in if symbolsWhitelist hf1 \<noteq> None \<and> arch_btContainsWLSymbol hf1 funcCnt funcs \<noteq> None
                     then Next (False, funcs, funcCnt, w1)
                     else if (case blacklist hf1 of
                                None \<Rightarrow> False
                              | Some bl \<Rightarrow> fastArray64Search bl (length bl) (backtrace fz1) \<noteq> - 1)
                     then Return (w1\<lparr>hfuzz := hf1\<lparr>blCrashesCnt := blCrashesCnt hf1 + 1\<rparr>\<rparr>)
                     else if symbolsBlacklist hf1 \<noteq> None \<and> arch_btContainsBLSymbol hf1 funcCnt funcs \<noteq> None
                     then Return (w1\<lparr>hfuzz := hf1\<lparr>blCrashesCnt := blCrashesCnt hf1 + 1\<rparr>\<rparr>)
                     else Next (saveUnique2, funcs, funcCnt, w1))))"

text \<open>The whole function. \<open>pid\<close> is the thread that stopped, \<open>E\<close> what the stop shows.\<close>

definition arch_ptraceSaveData :: "platform \<Rightarrow> int \<Rightarrow> stop_env \<Rightarrow> world \<Rightarrow> c_error + world" where
  "arch_ptraceSaveData P pid E w =
     (case saveData_filter P E w of
        Return w1 \<Rightarrow> Inr w1
      | Next (saveUnique2, funcs, funcCnt, w1) \<Rightarrow> saveData_saveCrash P pid E saveUnique2 funcs funcCnt w1)"

text \<open>\<^verbatim>\<open>arch_ptraceAnalyzeData\<close>, the analysis for a worker that is not the main one;
  \<open>pcRegSz\<close> is the result of \<^verbatim>\<open>arch_getPC\<close>.\<close>

definition arch_ptraceAnalyzeData :: "platform \<Rightarrow> nat \<Rightarrow> stop_env \<Rightarrow> world \<Rightarrow> world" where
  "arch_ptraceAnalyzeData P pcRegSz E w =
     (if pcRegSz = 0 then w
      else
        (let funcs = env_frames E @ replicate (HF_MAX_FUNCS - length (env_frames E)) funcs_zero;
             funcCnt = length (env_frames E)
         in if funcCnt = 0 \<and> env_pc E = 0 then w
            else
              (let funcs1 = (if funcCnt = 0 then funcs[0 := (funcs ! 0)\<lparr>pc := env_pc E\<rparr>] else funcs);
                   funcCnt1 = (if funcCnt = 0 then 1 else funcCnt);
                   bt = arch_hashCallstack (p_util_hash P) (numMajorFrames (hfuzz w)) funcs1 funcCnt1 False;
                   w1 = w\<lparr>fuzzer := (fuzzer w)\<lparr>backtrace := bt\<rparr>\<rparr>
               in if is_arm P \<and> funcCnt1 = 1
                  then (case env_lr E of
                          None \<Rightarrow> w1
                        | Some lr \<Rightarrow>
                            w1\<lparr>fuzzer := (fuzzer w1)\<lparr>backtrace := bt XOR p_util_hash P (last3 (regStr lr))\<rparr>\<rparr>)
                  else w1)))"

subsection \<open>arch\_parseAsanReport\<close>

text \<open>
  The parser reads the report line by line with \<^verbatim>\<open>getline\<close>, into one block of the heap,
  and works on that block through pointers: \<^verbatim>\<open>lineptr\<close>, \<^verbatim>\<open>cAddr\<close> and the tokens of
  \<^verbatim>\<open>strtok_r\<close>. The model keeps the bytes of the block (its length is the capacity
  \<^verbatim>\<open>n\<close>) and a pointer into the block as its offset from the start of the block.

  What the C library and the allocator decide is an input of the model: the size that
  \<^verbatim>\<open>getline\<close> asks for when its block of \<open>n\<close> bytes is too small for the \<open>k\<close> bytes it
  needs, the bytes found in memory that has not been written yet, and whether a block
  that grows to a size gets a new address.
\<close>

record heap_env =
  h_capacity :: "nat \<Rightarrow> nat \<Rightarrow> nat"
  h_fresh :: "nat \<Rightarrow> char"
  h_moves :: "nat \<Rightarrow> bool"

text \<open>The lines of the file as \<^verbatim>\<open>getline\<close> delivers them, each with its newline; the last
  one may lack it.\<close>

fun file_lines :: "string \<Rightarrow> string \<Rightarrow> string list" where
  "file_lines acc [] = (if acc = [] then [] else [acc])"
| "file_lines acc (c # cs) =
     (if c = CHR 0x0A then (acc @ [c]) # file_lines [] cs else file_lines (acc @ [c]) cs)"

text \<open>A pointer into the block of \<^verbatim>\<open>getline\<close> that outlives a call of \<^verbatim>\<open>getline\<close>: null,
  at an offset, or left behind when the block has moved.\<close>

datatype hptr = Null | At nat | Dangling

text \<open>The local variables of the function: the block \<^verbatim>\<open>lineptr\<close> was allocated with and
  the offset of \<^verbatim>\<open>lineptr\<close> in it, \<^verbatim>\<open>cAddr\<close>, \<^verbatim>\<open>headerFound\<close>, \<^verbatim>\<open>frameIdx\<close>, and what the
  function writes through its arguments \<^verbatim>\<open>crashAddr\<close>, \<^verbatim>\<open>op\<close> and \<^verbatim>\<open>funcs\<close>.\<close>

record asan_state =
  a_buf :: string
  a_lp :: nat
  a_cAddr :: hptr
  a_headerFound :: bool
  a_crashAddr :: u64
  a_op :: string
  a_frameIdx :: nat
  a_funcs :: "funcs_t list"

text \<open>
  \<^verbatim>\<open>getline(&lineptr, &n, fReport)\<close> for the next line of the file. The caller has to
  hand in the pointer that the allocator gave out: once \<^verbatim>\<open>lineptr\<close> has been advanced,
  the call is a failure of the model. A line that fits is written over the start of the
  block, followed by a NUL byte; the rest of the block keeps its bytes. Otherwise the
  block grows, and a pointer kept into it is left behind if the block moves.
\<close>

definition getline :: "heap_env \<Rightarrow> string \<Rightarrow> asan_state \<Rightarrow> c_error + asan_state" where
  "getline H l st =
     (if a_lp st \<noteq> 0 then Inl InvalidHeapPointer
      else
        (let need = length l + 1
         in if need \<le> length (a_buf st)
            then Inr (st\<lparr>a_buf := l @ [NUL] @ drop need (a_buf st)\<rparr>)
            else
              (let cap = max need (h_capacity H (length (a_buf st)) need)
               in Inr (st\<lparr>a_buf := l @ [NUL] @ map (h_fresh H) [need..<cap],
                          a_cAddr := (case a_cAddr st of
                                        At c \<Rightarrow> if h_moves H cap then Dangling else At c
                                      | p \<Rightarrow> p)\<rparr>))))"

text \<open>The string that \<^verbatim>\<open>lineptr\<close> points to. The block holds a NUL byte behind the line,
  so the string ends inside the block.\<close>

definition lineptr_str :: "asan_state \<Rightarrow> string" where
  "lineptr_str st = cstr (drop (a_lp st) (a_buf st))"

text \<open>
  The results of \<^verbatim>\<open>strchr\<close>, \<^verbatim>\<open>strrchr\<close> and \<^verbatim>\<open>strtok_r\<close> are pointers that may be null:
  \<open>Off a\<close> is the address at offset \<open>a\<close> from the start of the block. Arithmetic on the
  null pointer is a failure.
\<close>

datatype ptr = NULL | Off int

definition ptr_of :: "nat \<Rightarrow> nat option \<Rightarrow> ptr" where
  "ptr_of base r = (case r of None \<Rightarrow> NULL | Some i \<Rightarrow> Off (int base + int i))"

definition ptr_add :: "ptr \<Rightarrow> int \<Rightarrow> c_error + ptr" where
  "ptr_add p k = (case p of NULL \<Rightarrow> Inl NullPointerArithmetic | Off i \<Rightarrow> Inr (Off (i + k)))"

definition ptr_diff :: "ptr \<Rightarrow> ptr \<Rightarrow> c_error + int" where
  "ptr_diff p q =
     (case p of
        NULL \<Rightarrow> Inl NullPointerArithmetic
      | Off i \<Rightarrow> (case q of NULL \<Rightarrow> Inl NullPointerArithmetic | Off j \<Rightarrow> Inr (i - j)))"

text \<open>Loads and stores through a pointer into the block: a byte stored, \<open>n\<close> bytes
  loaded, and the string that starts at the pointer. An address in front of the block or
  behind its end is a failure.\<close>

definition blk_store :: "string \<Rightarrow> ptr \<Rightarrow> char \<Rightarrow> c_error + string" where
  "blk_store buf p c =
     (case p of
        NULL \<Rightarrow> Inl NullDereference
      | Off a \<Rightarrow>
          if 0 \<le> a \<and> nat a < length buf then Inr (buf[nat a := c]) else Inl StoreOutsideBlock)"

definition blk_load :: "string \<Rightarrow> ptr \<Rightarrow> nat \<Rightarrow> c_error + string" where
  "blk_load buf p n =
     (case p of
        NULL \<Rightarrow> Inl NullDereference
      | Off a \<Rightarrow>
          if 0 \<le> a \<and> nat a + n \<le> length buf then Inr (take n (drop (nat a) buf))
          else Inl LoadOutsideBlock)"

definition blk_str :: "string \<Rightarrow> ptr \<Rightarrow> c_error + string" where
  "blk_str buf p =
     (case p of
        NULL \<Rightarrow> Inl NullDereference
      | Off a \<Rightarrow>
          if 0 \<le> a \<and> NUL \<in> set (drop (nat a) buf) then Inr (cstr (drop (nat a) buf))
          else Inl LoadOutsideBlock)"

text \<open>The first step, lines 1133 to 1148: look for the header. \<^verbatim>\<open>cAddr\<close> is set to the
  address that follows \<^verbatim>\<open>address \<close> in the block, and the space behind the address is
  overwritten with a NUL byte. When no space follows, \<^verbatim>\<open>strchr\<close> returns the null pointer
  and \<^verbatim>\<open>endOff - cAddr\<close> is computed from it.\<close>

definition asan_header :: "string \<Rightarrow> asan_state \<Rightarrow> c_error + asan_state" where
  "asan_header header st =
     (let s = lineptr_str st
      in if length s > length header \<and> strncmp_eq header s (length header)
         then (case strstr_idx s ''address 0x'' of
                 None \<Rightarrow> Inr (st\<lparr>a_headerFound := True, a_cAddr := Null, a_crashAddr := 0\<rparr>)
               | Some i \<Rightarrow>
                   (let c = a_lp st + i + length ''address ''
                    in case strchr_idx (cstr (drop c (a_buf st))) CHR '' '' of
                         None \<Rightarrow> Inl NullPointerArithmetic
                       | Some endOff \<Rightarrow>
                           (let buf1 = (a_buf st)[c + endOff := NUL]
                            in Inr (st\<lparr>a_buf := buf1, a_headerFound := True, a_cAddr := At c,
                                       a_crashAddr := strtoull16 (cstr (drop c buf1))\<rparr>))))
         else Inr st)"

text \<open>Lines 1165 to 1172: the type of the access, on a line in which \<^verbatim>\<open>strstr\<close> finds the
  string that \<^verbatim>\<open>cAddr\<close> points to now. \<^verbatim>\<open>strncmp\<close> returns a value other than 0 when the
  strings differ.\<close>

definition asan_op :: "asan_state \<Rightarrow> c_error + string" where
  "asan_op st =
     (case a_cAddr st of
        Null \<Rightarrow> Inr (a_op st)
      | Dangling \<Rightarrow> Inl DanglingPointer
      | At c \<Rightarrow>
          (case blk_str (a_buf st) (Off (int c)) of
             Inl e \<Rightarrow> Inl e
           | Inr needle \<Rightarrow>
               if strstr_idx (lineptr_str st) needle \<noteq> None
               then (if \<not> strncmp_eq (lineptr_str st) ''READ'' 4 then Inr ''READ''
                     else if \<not> strncmp_eq (lineptr_str st) ''WRITE'' 5 then Inr ''WRITE''
                     else Inr (a_op st))
               else Inr (a_op st)))"

text \<open>
  \<^verbatim>\<open>strtok_r(.., " ", &savePtr)\<close> scanning from the offset \<open>s\<close>: it skips the spaces, returns
  the null pointer at the end of the string, and otherwise the start of the token; the
  space that ends the token is overwritten with a NUL byte. The result is the block, the
  token and \<^verbatim>\<open>savePtr\<close>.
\<close>

definition strtok_r :: "string \<Rightarrow> nat \<Rightarrow> string \<times> ptr \<times> nat" where
  "strtok_r buf s =
     (let s1 = s + length (takeWhile (\<lambda>c. c = CHR '' '') (cstr (drop s buf)));
          r = cstr (drop s1 buf);
          tok = takeWhile (\<lambda>c. c \<noteq> CHR '' '') r;
          e = s1 + length tok
      in if r = [] then (buf, NULL, s1)
         else if length tok = length r then (buf, Off (int s1), e)
         else (buf[e := NUL], Off (int s1), e + 1))"

text \<open>\<^verbatim>\<open>(size_t) (plusOff - startOff)\<close>: a negative difference wraps around.\<close>

definition to_size_t :: "int \<Rightarrow> nat" where
  "to_size_t i = nat (i mod 2 ^ 64)"

text \<open>
  Lines 1192 to 1203, for \<^verbatim>\<open>targetStr\<close> at the offset \<open>t\<close> of the block. The statements
  are in the order of the source: the sum \<^verbatim>\<open>strchr(targetStr, '(') + 1\<close> and the store
  \<^verbatim>\<open>targetStr[endOff - startOff] = 0\<close> come before the test of the three pointers. The
  result is the block after the store and, unless the branch
  \<^verbatim>\<open>Invalid ASan report entry\<close> is taken, the bytes that \<^verbatim>\<open>memcpy\<close> copies into
  \<^verbatim>\<open>funcs[frameIdx].func\<close> and the value stored into \<^verbatim>\<open>funcs[frameIdx].line\<close>.
\<close>

definition asan_frame_target :: "string \<Rightarrow> nat \<Rightarrow> c_error + string \<times> (string \<times> u64) option" where
  "asan_frame_target buf t =
     (let targetStr = cstr (drop t buf)
      in case ptr_add (ptr_of t (strchr_idx targetStr CHR ''('')) 1 of
           Inl e \<Rightarrow> Inl e
         | Inr startOff \<Rightarrow>
             (let plusOff = ptr_of t (strchr_idx targetStr CHR ''+'');
                  endOff = ptr_of t (strrchr_idx targetStr CHR '')'')
              in case ptr_diff endOff startOff of
                   Inl e \<Rightarrow> Inl e
                 | Inr d \<Rightarrow>
                     (case blk_store buf (Off (int t + d)) NUL of
                        Inl e \<Rightarrow> Inl e
                      | Inr buf1 \<Rightarrow>
                          if startOff = NULL \<or> endOff = NULL \<or> plusOff = NULL then Inr (buf1, None)
                          else
                            (case ptr_diff plusOff startOff of
                               Inl e \<Rightarrow> Inl e
                             | Inr n \<Rightarrow>
                                 (let dsoSz = min HF_FUNC_NAME_SZ (to_size_t n)
                                  in case blk_load buf1 startOff dsoSz of
                                       Inl e \<Rightarrow> Inl e
                                     | Inr dso \<Rightarrow>
                                         (case blk_str buf1 (Off (int t + n + 1)) of
                                            Inl e \<Rightarrow> Inl e
                                          | Inr codeOff \<Rightarrow>
                                              Inr (buf1, Some (dso, strtoull16 codeOff))))))))"

text \<open>\<^verbatim>\<open>snprintf(framePrefix, sizeof(framePrefix), "#%" PRIu8, frameIdx)\<close> with a buffer of
  5 bytes.\<close>

definition framePrefix :: "nat \<Rightarrow> string" where
  "framePrefix frameIdx = snprintf 5 (''#'' @ dec_nat (frameIdx mod 256))"

text \<open>How the body of the loop ends: with \<^verbatim>\<open>continue\<close> or the end of the body, or with
  \<^verbatim>\<open>break\<close>.\<close>

datatype 'a ctl = Continue 'a | Break 'a

text \<open>Lines 1175 to 1207: a line that starts with the frame prefix. The first token is
  the frame number, the second the PC, the third \<^verbatim>\<open>targetStr\<close>; \<^verbatim>\<open>strtoull\<close> and
  \<^verbatim>\<open>strchr\<close> are handed the result of \<^verbatim>\<open>strtok_r\<close> as it is, the null pointer included.
  The bytes copied into the zeroed field \<^verbatim>\<open>func\<close> are kept up to their first NUL byte:
  \<^verbatim>\<open>_HF_FUNC_NAME_SZ\<close> characters are a field without NUL byte.\<close>

definition asan_frame :: "asan_state \<Rightarrow> c_error + asan_state ctl" where
  "asan_frame st =
     (if a_frameIdx st \<ge> HF_MAX_FUNCS then Inr (Break st)
      else
        (let (b1, tok0, save1) = strtok_r (a_buf st) (a_lp st);
             (b2, tok1, save2) = strtok_r b1 save1
         in case tok1 of
              NULL \<Rightarrow> Inl NullDereference
            | Off pcOff \<Rightarrow>
                (let i = a_frameIdx st;
                     f1 = (a_funcs st ! i)\<lparr>pc := strtoull16 (cstr (drop (nat pcOff) b2))\<rparr>;
                     (b3, tok2, save3) = strtok_r b2 save2
                 in case tok2 of
                      NULL \<Rightarrow> Inl NullDereference
                    | Off t \<Rightarrow>
                        (case asan_frame_target b3 (nat t) of
                           Inl e \<Rightarrow> Inl e
                         | Inr (b4, None) \<Rightarrow>
                             Inr (Continue (st\<lparr>a_buf := b4, a_funcs := (a_funcs st)[i := f1],
                                               a_frameIdx := i + 1\<rparr>))
                         | Inr (b4, Some (dso, off)) \<Rightarrow>
                             Inr (Continue (st\<lparr>a_buf := b4,
                                               a_funcs := (a_funcs st)
                                                 [i := f1\<lparr>func := cstr dso, line := unat off\<rparr>],
                                               a_frameIdx := i + 1\<rparr>))))))"

text \<open>The body of the loop once the header has been found, lines 1150 to 1207. The loop
  that trims the line advances \<^verbatim>\<open>lineptr\<close> itself.\<close>

definition asan_line :: "asan_state \<Rightarrow> c_error + asan_state ctl" where
  "asan_line st0 =
     (let st = st0\<lparr>a_lp := a_lp st0 + length (takeWhile isspace (lineptr_str st0))\<rparr>
      in if lineptr_str st = [] \<and> a_frameIdx st \<noteq> 0 then Inr (Break st)
         else if length (lineptr_str st) < 10 then Inr (Continue st)
         else
           (case asan_op st of
              Inl e \<Rightarrow> Inl e
            | Inr op1 \<Rightarrow>
                (let st1 = st\<lparr>a_op := op1\<rparr>
                 in if strncmp_eq (lineptr_str st1) (framePrefix (a_frameIdx st1))
                         (length (framePrefix (a_frameIdx st1)))
                    then asan_frame st1
                    else Inr (Continue st1))))"

text \<open>The loop of lines 1127 to 1209 over the lines that are left in the file. At the end
  of the file \<^verbatim>\<open>getline\<close> is called once more, with the pointer as it is then.\<close>

fun asan_loop :: "heap_env \<Rightarrow> string \<Rightarrow> string list \<Rightarrow> asan_state \<Rightarrow> c_error + asan_state" where
  "asan_loop H header [] st = (if a_lp st \<noteq> 0 then Inl InvalidHeapPointer else Inr st)"
| "asan_loop H header (l # ls) st =
     (case getline H l st of
        Inl e \<Rightarrow> Inl e
      | Inr st1 \<Rightarrow>
          if \<not> a_headerFound st1
          then (case asan_header header st1 of
                  Inl e \<Rightarrow> Inl e
                | Inr st2 \<Rightarrow> asan_loop H header ls st2)
          else (case asan_line st1 of
                  Inl e \<Rightarrow> Inl e
                | Inr (Break st2) \<Rightarrow> Inr st2
                | Inr (Continue st2) \<Rightarrow> asan_loop H header ls st2))"

text \<open>The function: its result, the array \<^verbatim>\<open>funcs\<close>, \<^verbatim>\<open>*crashAddr\<close>, \<^verbatim>\<open>*op\<close> and the files
  afterwards. After the loop \<^verbatim>\<open>free(lineptr)\<close> needs the pointer that the allocator gave
  out; then the report file is unlinked.\<close>

definition arch_parseAsanReport ::
  "platform \<Rightarrow> heap_env \<Rightarrow> honggfuzz_t \<Rightarrow> int \<Rightarrow> funcs_t list \<Rightarrow> u64 \<Rightarrow> string
   \<Rightarrow> (string \<rightharpoonup> string)
   \<Rightarrow> c_error + (int \<times> funcs_t list \<times> u64 \<times> string \<times> (string \<rightharpoonup> string))" where
  "arch_parseAsanReport P H hf pid funcs crashAddr op fls =
     (let crashReport = snprintf PATH_MAX (workDir hf @ ''/'' @ p_logprefix P @ ''.'' @ dec_int pid)
      in case fls crashReport of
           None \<Rightarrow> Inr (- 1, funcs, crashAddr, op, fls)
         | Some content \<Rightarrow>
             (let header = snprintf 35 (''=='' @ dec_int pid @ ''==ERROR: AddressSanitizer:'');
                  st0 = \<lparr>a_buf = [], a_lp = 0, a_cAddr = Null, a_headerFound = False,
                         a_crashAddr = crashAddr, a_op = op, a_frameIdx = 0, a_funcs = funcs\<rparr>
              in case asan_loop H header (file_lines [] content) st0 of
                   Inl e \<Rightarrow> Inl e
                 | Inr st \<Rightarrow>
                     if a_lp st \<noteq> 0 then Inl InvalidFree
                     else Inr (int (a_frameIdx st), a_funcs st, a_crashAddr st, a_op st,
                               fls(crashReport := None))))"

subsection \<open>arch\_ptraceExitSaveData\<close>

text \<open>What the exit of the tracee shows to the function: the text of
  \<^verbatim>\<open>util_getLocalTime\<close>, whether the copy of the input succeeds, and the allocator
  behind \<^verbatim>\<open>getline\<close>.\<close>

record exit_env =
  x_time :: string
  x_copy_ok :: bool
  x_heap :: heap_env

text \<open>The name of the crash file: lines 1272 to 1291.\<close>

definition exitSaveData_crashFileName ::
  "platform \<Rightarrow> honggfuzz_t \<Rightarrow> fuzzer_t \<Rightarrow> exit_env \<Rightarrow> int \<Rightarrow> u64 \<Rightarrow> string \<Rightarrow> u64 \<Rightarrow> string" where
  "exitSaveData_crashFileName P hf fz X exitCode pc0 op crashAddr =
     (let stem = workDir hf @ ''/'' @ arch_sanCodeToStr P exitCode @ ''.PC.'' @ hex_nat (unat pc0)
                 @ ''.STACK.'' @ hex_nat (unat (backtrace fz)) @ ''.CODE.'' @ op
                 @ ''.ADDR.'' @ fmt_p crashAddr @ ''.INSTR.'' @ ''[UNKNOWN]'' @ ''.''
      in if flipRate_zero hf \<and> useVerifier hf
         then snprintf PATH_MAX (workDir hf @ ''/'' @ origFileName fz)
         else if backtrace fz \<noteq> 0 \<and> saveUnique hf then snprintf PATH_MAX (stem @ fileExtn hf)
         else snprintf PATH_MAX (stem @ x_time X @ ''.'' @ fileExtn hf))"

text \<open>The report: lines 1319 to 1343. The conversion \<^verbatim>\<open>%s\<close> of a field \<^verbatim>\<open>func\<close> without
  NUL byte reads on behind the field.\<close>

fun exit_report_frames ::
  "nat \<Rightarrow> funcs_t list \<Rightarrow> nat \<Rightarrow> nat \<Rightarrow> string \<Rightarrow> c_error + string" where
  "exit_report_frames sz funcs 0 i rep = Inr rep"
| "exit_report_frames sz funcs (Suc n) i rep =
     (let f = funcs ! i;
          r1 = util_ssnprintf sz rep ('' <'' @ regStr (pc f) @ ''> '')
      in if func f \<noteq> []
         then (if length (func f) \<ge> HF_FUNC_NAME_SZ then Inl UnterminatedString
               else exit_report_frames sz funcs n (i + 1)
                      (util_ssnprintf sz r1
                         (''['' @ func f @ '' + 0x'' @ hex_nat (line f mod 2 ^ 32) @ '']\<newline>'')))
         else exit_report_frames sz funcs n (i + 1) (util_ssnprintf sz r1 ''[]\<newline>''))"

definition exitSaveData_report ::
  "platform \<Rightarrow> int \<Rightarrow> fuzzer_t \<Rightarrow> int \<Rightarrow> string \<Rightarrow> u64 \<Rightarrow> funcs_t list \<Rightarrow> int
   \<Rightarrow> c_error + fuzzer_t" where
  "exitSaveData_report P pid fz exitCode op crashAddr funcs funcCnt =
     (let sz = p_report_sz P;
          r0 = [];
          r1 = util_ssnprintf sz r0 (''ORIG_FNAME: '' @ origFileName fz @ ''\<newline>'');
          r2 = util_ssnprintf sz r1 (''FUZZ_FNAME: '' @ crashFileName fz @ ''\<newline>'');
          r3 = util_ssnprintf sz r2 (''PID: '' @ dec_int pid @ ''\<newline>'');
          r4 = util_ssnprintf sz r3
                 (''EXIT CODE: '' @ dec_int exitCode @ '' ('' @ arch_sanCodeToStr P exitCode @ '')\<newline>'');
          r5 = util_ssnprintf sz r4 (''OPERATION: '' @ op @ ''\<newline>'');
          r6 = util_ssnprintf sz r5 (''FAULT ADDRESS: '' @ fmt_p crashAddr @ ''\<newline>'')
      in if funcCnt > 0
         then (let r7 = util_ssnprintf sz r6
                          (''STACK HASH: '' @ hex_pad 16 (unat (backtrace fz)) @ ''\<newline>'');
                   r8 = util_ssnprintf sz r7 ''STACK:\<newline>''
               in case exit_report_frames sz funcs (nat funcCnt) 0 r8 of
                    Inl e \<Rightarrow> Inl e
                  | Inr r9 \<Rightarrow> Inr (fz\<lparr>report := r9\<rparr>))
         else Inr (fz\<lparr>report := r6\<rparr>))"

text \<open>From the copy of the input to the end of the function: lines 1293 to 1343.\<close>

definition exitSaveData_copy ::
  "platform \<Rightarrow> int \<Rightarrow> exit_env \<Rightarrow> int \<Rightarrow> string \<Rightarrow> u64 \<Rightarrow> funcs_t list \<Rightarrow> int \<Rightarrow> world
   \<Rightarrow> c_error + world" where
  "exitSaveData_copy P pid X exitCode op crashAddr funcs funcCnt w =
     (case files_copyFile (x_copy_ok X) (files w) (fileName (fuzzer w)) (crashFileName (fuzzer w)) of
        (True, dstFileExists, files1) \<Rightarrow>
          (let hf1 = (hfuzz w)\<lparr>uniqueCrashesCnt := uniqueCrashesCnt (hfuzz w) + 1\<rparr>;
               hf2 = hf1\<lparr>dynFileIterExpire := dynFileIterExpire hf1 AND 0\<rparr>
           in case exitSaveData_report P pid (fuzzer w) exitCode op crashAddr funcs funcCnt of
                Inl e \<Rightarrow> Inl e
              | Inr fz1 \<Rightarrow> Inr \<lparr>hfuzz = hf2, fuzzer = fz1, files = files1\<rparr>)
      | (False, dstFileExists, files1) \<Rightarrow>
          (if dstFileExists
           then Inr \<lparr>hfuzz = hfuzz w, fuzzer = (fuzzer w)\<lparr>backtrace := 0\<rparr>, files = files1\<rparr>
           else Inr \<lparr>hfuzz = hfuzz w, fuzzer = (fuzzer w)\<lparr>crashFileName := []\<rparr>, files = files1\<rparr>))"

text \<open>From the bookkeeping to the name of the crash file: lines 1233 to 1291. The part
  returns when the report of the sanitizer is not there; otherwise it hands on
  \<^verbatim>\<open>op\<close>, \<^verbatim>\<open>crashAddr\<close>, the frames and the state.\<close>

definition exitSaveData_name ::
  "platform \<Rightarrow> int \<Rightarrow> exit_env \<Rightarrow> int \<Rightarrow> world
   \<Rightarrow> c_error + (world, string \<times> u64 \<times> funcs_t list \<times> int \<times> world) part" where
  "exitSaveData_name P pid X exitCode w =
     (let hf1 = (hfuzz w)\<lparr>crashesCnt := crashesCnt (hfuzz w) + 1\<rparr>;
          hf2 = hf1\<lparr>dynFileIterExpire := dynFileIterExpire hf1 AND HF_DYNFILE_SUB_MASK\<rparr>;
          funcs = replicate HF_MAX_FUNCS funcs_zero;
          w1 = w\<lparr>hfuzz := hf2\<rparr>
      in if exitCode = p_asan_exit P
         then (case arch_parseAsanReport P (x_heap X) hf2 pid funcs 0 ''UNKNOWN'' (files w1) of
                 Inl e \<Rightarrow> Inl e
               | Inr (funcCnt, funcs1, crashAddr, op, files1) \<Rightarrow>
                   if funcCnt = - 1 then Inr (Return (w1\<lparr>files := files1\<rparr>))
                   else
                     (let bt = arch_hashCallstack (p_util_hash P) (numMajorFrames hf2) funcs1
                                 (nat funcCnt) False;
                          fz1 = (fuzzer w1)\<lparr>backtrace := bt\<rparr>;
                          pc0 = pc (funcs1 ! 0);
                          fz2 = fz1\<lparr>crashFileName :=
                                      exitSaveData_crashFileName P hf2 fz1 X exitCode pc0 op crashAddr\<rparr>
                      in Inr (Next (op, crashAddr, funcs1, funcCnt,
                                    \<lparr>hfuzz = hf2, fuzzer = fz2, files = files1\<rparr>))))
         else
           (let fz2 = (fuzzer w1)\<lparr>crashFileName :=
                          exitSaveData_crashFileName P hf2 (fuzzer w1) X exitCode 0 ''UNKNOWN'' 0\<rparr>
            in Inr (Next (''UNKNOWN'', 0, funcs, 0, w1\<lparr>fuzzer := fz2\<rparr>))))"

text \<open>The whole function.\<close>

definition arch_ptraceExitSaveData ::
  "platform \<Rightarrow> int \<Rightarrow> exit_env \<Rightarrow> int \<Rightarrow> world \<Rightarrow> c_error + world" where
  "arch_ptraceExitSaveData P pid X exitCode w =
     (if crashFileName (fuzzer w) \<noteq> [] then Inr w
      else
        (case exitSaveData_name P pid X exitCode w of
           Inl e \<Rightarrow> Inl e
         | Inr (Return w1) \<Rightarrow> Inr w1
         | Inr (Next (op, crashAddr, funcs, funcCnt, w1)) \<Rightarrow>
             exitSaveData_copy P pid X exitCode op crashAddr funcs funcCnt w1))"


subsection \<open>arch\_listThreads\<close>

text \<open>What \<^verbatim>\<open>readdir_r\<close> yields, call by call: an entry with its name, or a failure. The
  end of the list is the end of the directory.\<close>

datatype dirent = Entry string | ReadError

text \<open>The loop of lines 1450 to 1474. Its result says whether the loop was left through
  \<^verbatim>\<open>break\<close> (true) or the function returned false from inside it, and gives the count and
  the array at that point.\<close>

fun listThreads_loop ::
  "int list \<Rightarrow> nat \<Rightarrow> nat \<Rightarrow> dirent list \<Rightarrow> c_error + (bool \<times> nat \<times> int list)" where
  "listThreads_loop tasks thrSz count [] = Inr (True, count, tasks)"
| "listThreads_loop tasks thrSz count (ReadError # rest) = Inr (False, count, tasks)"
| "listThreads_loop tasks thrSz count (Entry d_name # rest) =
     (let pid = to_pid_t (strtol10 d_name)
      in if pid = 0 then listThreads_loop tasks thrSz count rest
         else if count < length tasks
         then (let tasks1 = tasks[count := pid]; count1 = count + 1
               in if count1 \<ge> thrSz then Inr (True, count1, tasks1)
                  else listThreads_loop tasks1 thrSz count1 rest)
         else Inl IndexOutOfBounds)"

text \<open>The store \<^verbatim>\<open>tasks[count + 1] = 0\<close> of line 1477, into an array of \<open>length tasks\<close>
  entries.\<close>

definition listThreads_terminate :: "int list \<Rightarrow> nat \<Rightarrow> c_error + int list" where
  "listThreads_terminate tasks count =
     (if count + 1 < length tasks then Inr (tasks[count + 1 := 0]) else Inl IndexOutOfBounds)"

text \<open>The function: \<open>dir\<close> is \<open>None\<close> when \<^verbatim>\<open>opendir\<close> fails. The result is the return
  value and the array.\<close>

definition arch_listThreads ::
  "int list \<Rightarrow> nat \<Rightarrow> dirent list option \<Rightarrow> c_error + (bool \<times> int list)" where
  "arch_listThreads tasks thrSz dir =
     (case dir of
        None \<Rightarrow> Inr (False, tasks)
      | Some entries \<Rightarrow>
          (case listThreads_loop tasks thrSz 0 entries of
             Inl e \<Rightarrow> Inl e
           | Inr (False, count, tasks1) \<Rightarrow> Inr (False, tasks1)
           | Inr (True, count, tasks1) \<Rightarrow>
               (case listThreads_terminate tasks1 count of
                  Inl e \<Rightarrow> Inl e
                | Inr tasks2 \<Rightarrow> Inr (count \<ge> 1, tasks2))))"

definition MAX_THREAD_IN_TASK :: nat where
  "MAX_THREAD_IN_TASK = 4096"

text \<open>The array that \<^verbatim>\<open>arch_ptraceAttach\<close> and \<^verbatim>\<open>arch_ptraceDetach\<close> hand to
  \<^verbatim>\<open>arch_listThreads\<close>: \<^verbatim>\<open>int tasks[MAX_THREAD_IN_TASK + 1] = { 0 }\<close>.\<close>

definition attach_tasks :: "int list" where
  "attach_tasks = replicate (MAX_THREAD_IN_TASK + 1) 0"

subsection \<open>Concrete inputs\<close>

text \<open>A stand-in for \<^verbatim>\<open>util_hash\<close>, used to run the model at concrete inputs only.\<close>

definition sample_hash :: "string \<Rightarrow> u64" where
  "sample_hash s = word_of_nat (foldl (\<lambda>a c. a * 31 + of_char c) 0 s)"

text \<open>A build for x86-64 and one for AArch64, a configuration and a worker that has not
  saved a crash yet, with its input file on disk.\<close>

definition sample_x86 :: platform where
  "sample_x86 = \<lparr>p_cpu = X86_64, p_capstone = False, p_util_hash = sample_hash, p_report_sz = 8192,
                 p_logprefix = ''HF.sanitizer.log'', p_msan_exit = 103, p_asan_exit = 104,
                 p_ubsan_exit = 105\<rparr>"


definition sample_hfuzz :: honggfuzz_t where
  "sample_hfuzz = \<lparr>workDir = ''/w'', fileExtn = ''fuzz'', ignoreAddr = 0, saveUnique = True,
                   disableRandomization = True, flipRate_zero = False, useVerifier = False,
                   saveMaps = False, useSanCov = False, numMajorFrames = 7,
                   symbolsWhitelist = None, symbolsBlacklist = None, blacklist = None,
                   crashesCnt = 0, uniqueCrashesCnt = 0, blCrashesCnt = 0, dynFileIterExpire = 0\<rparr>"

definition sample_fuzzer :: fuzzer_t where
  "sample_fuzzer = \<lparr>fileName = ''/in/a'', origFileName = ''a'', crashFileName = [], backtrace = 0,
                    report = [], sanCov_crashesCnt = 0, mainWorker = True\<rparr>"

definition sample_world :: world where
  "sample_world = \<lparr>hfuzz = sample_hfuzz, fuzzer = sample_fuzzer, files = [''/in/a'' \<mapsto> ''AAAA'']\<rparr>"

text \<open>The same with \<^verbatim>\<open>ignoreAddr\<close> set to 0x10000.\<close>

definition sample_world_ign :: world where
  "sample_world_ign = sample_world\<lparr>hfuzz := sample_hfuzz\<lparr>ignoreAddr := 0x10000\<rparr>\<rparr>"

text \<open>A SIGSEGV at address 0x200 with three frames.\<close>

definition sample_stop :: stop_env where
  "sample_stop = \<lparr>env_si = \<lparr>si_signo = 11, si_code = 1, si_addr = 0x200\<rparr>, env_pc = 0xdeadbeef,
                  env_instr = ''mov'',
                  env_frames = [\<lparr>pc = 0xdeadbeef, func = ''main'', line = 0\<rparr>,
                                \<lparr>pc = 0x400100, func = ''foo'', line = 0\<rparr>,
                                \<lparr>pc = 0x7f00abcd, func = ''libc'', line = 0\<rparr>],
                  env_lr = None, env_time = ''2016-01-01.00:00:00'', env_copy_ok = True,
                  env_maps = None\<rparr>"

text \<open>The same stop when the PC is 0 and the unwinder finds no frame.\<close>

definition sample_pc_zero :: stop_env where
  "sample_pc_zero = sample_stop\<lparr>env_pc := 0, env_frames := []\<rparr>"

text \<open>The three global counters.\<close>

definition counters :: "world \<Rightarrow> u64 \<times> u64 \<times> u64" where
  "counters w = (crashesCnt (hfuzz w), uniqueCrashesCnt (hfuzz w), blCrashesCnt (hfuzz w))"


text \<open>A C library that asks for 120 bytes at first and for twice the size when the block
  is too small, as \<^verbatim>\<open>getline\<close> of the GNU C library does; fresh memory holds question
  marks, and a block that grows moves. An exit of the tracee.\<close>

definition sample_heap :: heap_env where
  "sample_heap = \<lparr>h_capacity = (\<lambda>n k. max 120 (2 * n)), h_fresh = (\<lambda>i. CHR ''?''),
                   h_moves = (\<lambda>k. True)\<rparr>"

definition sample_exit :: exit_env where
  "sample_exit = \<lparr>x_time = ''2016-01-01.00:00:00'', x_copy_ok = True, x_heap = sample_heap\<rparr>"

text \<open>The state of a worker whose stack hash is 0x4674, with the crash files of that hash on
  disk already: the one of the SIGSEGV above and the one of an exit with the MSan code.\<close>

definition sample_dup :: world where
  "sample_dup = sample_world\<lparr>fuzzer := sample_fuzzer\<lparr>backtrace := 0x4674\<rparr>,
     files := [''/in/a'' \<mapsto> ''AAAA'',
               ''/w/SIGSEGV.PC.deadbeef.STACK.4674.CODE.1.ADDR.0x200.INSTR.mov.fuzz'' \<mapsto> ''AAAA'',
               ''/w/MSAN.PC.0.STACK.4674.CODE.UNKNOWN.ADDR.(nil).INSTR.[UNKNOWN].fuzz'' \<mapsto> ''AAAA'']\<rparr>"

text \<open>A worker that has saved the SIGSEGV above in this iteration.\<close>

definition sample_saved :: world where
  "sample_saved = sample_world\<lparr>fuzzer := sample_fuzzer\<lparr>backtrace := 0x4674,
     crashFileName := ''/w/SIGSEGV.PC.deadbeef.STACK.4674.CODE.1.ADDR.0x200.INSTR.mov.fuzz''\<rparr>\<rparr>"

text \<open>A configuration with a blacklist of stack hashes.\<close>

definition sample_blacklisted :: world where
  "sample_blacklisted = sample_world\<lparr>hfuzz := sample_hfuzz\<lparr>blacklist := Some [0x5, 0x4674, 0x11170]\<rparr>\<rparr>"

text \<open>A report of AddressSanitizer for process 77, with no white space in front of its
  lines: the header with the crash address, the line that tells the access, and one
  frame.\<close>

definition sample_asan_header :: string where
  "sample_asan_header =
     ''==77==ERROR: AddressSanitizer: heap-use-after-free on address 0xdeadc0de at pc 0x1 bp 0x2\<newline>''"

definition sample_asan_log :: string where
  "sample_asan_log =
     sample_asan_header @
     ''READ of size 4 at 0xdeadc0de thread T0\<newline>'' @
     ''#0 0xaa860177 (/system/lib/libc.so+0x196177)\<newline>''"

definition sample_asan_files :: "string \<rightharpoonup> string" where
  "sample_asan_files = [''/in/a'' \<mapsto> ''AAAA'', ''/w/HF.sanitizer.log.77'' \<mapsto> sample_asan_log]"

text \<open>A report whose frame has the two parentheses the wrong way round.\<close>

definition sample_swapped_files :: "string \<rightharpoonup> string" where
  "sample_swapped_files =
     [''/in/a'' \<mapsto> ''AAAA'',
      ''/w/HF.sanitizer.log.77'' \<mapsto> sample_asan_header @ ''#0 0xaa860177 )(\<newline>'']"

text \<open>A worker with that report on disk, and with the crash file that the exit of
  process 77 with the code of ASan leads to.\<close>

definition sample_asan_dup :: world where
  "sample_asan_dup = sample_world\<lparr>files :=
     [''/in/a'' \<mapsto> ''AAAA'', ''/w/HF.sanitizer.log.77'' \<mapsto> sample_asan_log,
      ''/w/ASAN.PC.aa860177.STACK.bed1.CODE.WRITE.ADDR.0xdeadc0de.INSTR.[UNKNOWN].fuzz'' \<mapsto> ''AAAA'']\<rparr>"

section \<open>Properties of the stack fingerprint\<close>

lemma hex_nat_length: "0 < k \<Longrightarrow> n < 16 ^ k \<Longrightarrow> length (hex_nat n) \<le> k"
proof (induction k arbitrary: n)
  case 0
  then show ?case by simp
next
  case (Suc k)
  show ?case
  proof (cases "n < 16")
    case True
    then show ?thesis by (simp add: hex_nat.simps)
  next
    case False
    then have k0: "0 < k" using Suc.prems by (cases k) auto
    have "n div 16 < 16 ^ k"
      using Suc.prems(2) by (simp add: less_mult_imp_div_less mult.commute)
    from Suc.IH[OF k0 this] False show ?thesis by (subst hex_nat.simps) simp
  qed
qed

lemma regStr_length: "length (regStr p) = 18"
proof -
  have "unat p < 16 ^ 16" using unsigned_less[of p] by simp
  then have "length (hex_nat (unat p)) \<le> 16" by (intro hex_nat_length) simp_all
  then show ?thesis by (simp add: regStr_def hex_pad_def Let_def REGSIZEINCHAR_def)
qed

lemma hashLoop_foldl:
  "funcCnt \<le> length funcs \<Longrightarrow>
   hashLoop uh k funcs funcCnt i h =
     foldl (\<lambda>h p. h XOR uh (last3 (regStr p))) h
       (map pc (drop i (take (min funcCnt k) funcs)))"
proof (induction uh k funcs funcCnt i h rule: hashLoop.induct)
  case (1 uh k funcs funcCnt i h)
  show ?case
  proof (cases "i < funcCnt \<and> i < k")
    case True
    then have il: "i < length (take (min funcCnt k) funcs)" using "1.prems" by simp
    have d: "drop i (take (min funcCnt k) funcs) =
             funcs ! i # drop (i + 1) (take (min funcCnt k) funcs)"
      using il by (metis Cons_nth_drop_Suc Suc_eq_plus1 nth_take length_take min_less_iff_conj)
    show ?thesis using True "1.IH"[OF True "1.prems"] d
      by (subst hashLoop.simps) simp
  next
    case False
    then have "drop i (take (min funcCnt k) funcs) = []" by auto
    moreover have "hashLoop uh k funcs funcCnt i h = h"
      using False by (subst hashLoop.simps) auto
    ultimately show ?thesis by simp
  qed
qed

lemma arch_hashCallstack_closed:
  "funcCnt \<le> length funcs \<Longrightarrow>
   arch_hashCallstack uh k funcs funcCnt m =
     (let h = foldl (\<lambda>h p. h XOR uh (last3 (regStr p))) 0
                (map pc (take (min funcCnt k) funcs))
      in if m \<and> funcCnt = 1 then h OR HF_SINGLE_FRAME_MASK else h)"
  by (simp add: arch_hashCallstack_def hashLoop_foldl Let_def)

text \<open>The 18 characters of \<^verbatim>\<open>0x%016lx\<close>, digit by digit, and the last three of them.\<close>

lemma hexdigit_mod: "hexdigit (n mod 16) = hexdigit n"
  by (simp add: hexdigit_def)

lemma hex_pad_Suc:
  assumes "0 < k" and "n < 16 ^ Suc k"
  shows "hex_pad (Suc k) n = hex_pad k (n div 16) @ [hexdigit n]"
proof (cases "n < 16")
  case True
  then have "n div 16 = 0" by simp
  moreover have "hex_nat 0 = [hexdigit 0]" by (simp add: hex_nat.simps)
  moreover have "hex_nat n = [hexdigit n]" using True by (simp add: hex_nat.simps)
  moreover have "replicate k CHR ''0'' = replicate (k - 1) CHR ''0'' @ [hexdigit 0]"
    using assms(1) by (cases k) (simp_all add: hexdigit_def replicate_append_same)
  ultimately show ?thesis by (simp add: hex_pad_def Let_def)
next
  case False
  then have h: "hex_nat n = hex_nat (n div 16) @ [hexdigit n]"
    by (subst hex_nat.simps) (simp add: hexdigit_mod)
  have "n div 16 < 16 ^ k" using assms(2) by (simp add: less_mult_imp_div_less mult.commute)
  then have "length (hex_nat (n div 16)) \<le> k" using assms(1) by (intro hex_nat_length)
  then show ?thesis by (simp add: hex_pad_def Let_def h Suc_diff_le)
qed

lemma hex_pad_digits:
  "0 < k \<Longrightarrow> n < 16 ^ k \<Longrightarrow> hex_pad k n = map (\<lambda>j. hexdigit (n div 16 ^ j)) (rev [0..<k])"
proof (induction k arbitrary: n)
  case 0
  then show ?case by simp
next
  case (Suc k)
  show ?case
  proof (cases "k = 0")
    case True
    then show ?thesis using Suc.prems by (simp add: hex_pad_def Let_def hex_nat.simps)
  next
    case False
    then have k: "0 < k" by simp
    have d: "n div 16 < 16 ^ k" using Suc.prems(2) by (simp add: less_mult_imp_div_less mult.commute)
    have "map (\<lambda>j. hexdigit (n div 16 ^ j)) (rev [0..<Suc k])
            = map (\<lambda>j. hexdigit (n div 16 ^ j)) (rev (map Suc [0..<k])) @ [hexdigit n]"
      by (simp only: upt_conv_Cons[of 0 "Suc k"] map_Suc_upt[symmetric]) simp
    also have "map (\<lambda>j. hexdigit (n div 16 ^ j)) (rev (map Suc [0..<k]))
                 = map (\<lambda>j. hexdigit (n div 16 div 16 ^ j)) (rev [0..<k])"
      by (simp add: rev_map comp_def div_mult2_eq)
    finally show ?thesis using hex_pad_Suc[OF k Suc.prems(2)] Suc.IH[OF k d] by simp
  qed
qed

lemma regStr_digits:
  "regStr p = ''0x'' @ map (\<lambda>j. ''0123456789abcdef'' ! (unat p div 16 ^ j mod 16)) (rev [0..<16])"
proof -
  have "unat p < 16 ^ 16" using unsigned_less[of p] by simp
  then have "hex_pad 16 (unat p) = map (\<lambda>j. hexdigit (unat p div 16 ^ j)) (rev [0..<16])"
    by (intro hex_pad_digits) simp_all
  then show ?thesis by (simp add: regStr_def REGSIZEINCHAR_def hexdigit_def)
qed

lemma last3_regStr:
  "last3 (regStr p) = map (\<lambda>j. ''0123456789abcdef'' ! (unat p div 16 ^ j mod 16)) [2, 1, 0]"
proof -
  have u: "rev [0..<16] = [15, 14, 13, 12, 11, 10, 9, 8, 7, 6, 5, 4, 3, 2, 1, 0::nat]"
    by (simp add: numeral_eq_Suc)
  show ?thesis unfolding regStr_digits last3_def u by simp
qed

text \<open>
  Claim C1. The stack fingerprint is a function of the program counters of the first
  \<open>min funcCnt numMajorFrames\<close> frames alone: starting from 0 it XORs, frame by frame,
  \<^verbatim>\<open>util_hash\<close> of the last three characters of the string \<^verbatim>\<open>0x%016lx\<close> of the frame's
  PC, which are the lowercase hexadecimal digits of the PC at the positions 2, 1 and 0
  (and then applies the single-frame mask, which depends on the frame count only). The
  string is \<^verbatim>\<open>0x\<close> and the 16 digits of the PC, from position 15 down to 0. Hence two
  frame arrays with the same frame count that agree on those first frames get the same
  hash, whatever the later frames are.
\<close>

theorem arch_hashCallstack_major_frames:
  assumes "funcCnt \<le> length fs" and "funcCnt \<le> length gs"
    and "map pc (take (min funcCnt k) fs) = map pc (take (min funcCnt k) gs)"
  shows "arch_hashCallstack uh k fs funcCnt m =
           (let h = foldl (\<lambda>h p. h XOR uh (map (\<lambda>j. ''0123456789abcdef'' ! (unat p div 16 ^ j mod 16))
                                             [2, 1, 0]))
                      0 (map pc (take (min funcCnt k) fs))
            in if m \<and> funcCnt = 1 then h OR HF_SINGLE_FRAME_MASK else h)
         \<and> (\<forall>p. regStr p = ''0x'' @ map (\<lambda>j. ''0123456789abcdef'' ! (unat p div 16 ^ j mod 16))
                                         (rev [0..<16])
                \<and> length (regStr p) = 18
                \<and> last3 (regStr p) = map (\<lambda>j. ''0123456789abcdef'' ! (unat p div 16 ^ j mod 16))
                                        [2, 1, 0])
         \<and> arch_hashCallstack uh k gs funcCnt m = arch_hashCallstack uh k fs funcCnt m"
proof (intro conjI allI)
  show "arch_hashCallstack uh k fs funcCnt m =
           (let h = foldl (\<lambda>h p. h XOR uh (map (\<lambda>j. ''0123456789abcdef'' ! (unat p div 16 ^ j mod 16))
                                             [2, 1, 0]))
                      0 (map pc (take (min funcCnt k) fs))
            in if m \<and> funcCnt = 1 then h OR HF_SINGLE_FRAME_MASK else h)"
    using arch_hashCallstack_closed[OF assms(1), of uh k m] by (simp only: last3_regStr)
  show "arch_hashCallstack uh k gs funcCnt m = arch_hashCallstack uh k fs funcCnt m"
    using assms by (simp add: arch_hashCallstack_closed)
qed (rule regStr_digits regStr_length last3_regStr)+

text \<open>The theorem at work: three frames of which two count. The hash is \<^verbatim>\<open>util_hash\<close> of
  \<^verbatim>\<open>eef\<close> XOR \<^verbatim>\<open>util_hash\<close> of \<^verbatim>\<open>100\<close>, whatever the third frame is.\<close>

theorem arch_hashCallstack_major_frames_witness:
  "arch_hashCallstack sample_hash 2
      [\<lparr>pc = 0xdeadbeef, func = ''main'', line = 0\<rparr>, \<lparr>pc = 0x400100, func = ''foo'', line = 0\<rparr>,
       \<lparr>pc = 0x7f00abcd, func = ''libc'', line = 0\<rparr>] 3 True
     = sample_hash ''eef'' XOR sample_hash ''100''
   \<and> regStr 0xdeadbeef = ''0x00000000deadbeef'' \<and> last3 (regStr 0xdeadbeef) = ''eef''
   \<and> arch_hashCallstack sample_hash 2
      [\<lparr>pc = 0xdeadbeef, func = ''main'', line = 0\<rparr>, \<lparr>pc = 0x400100, func = ''foo'', line = 0\<rparr>,
       \<lparr>pc = 0x1234, func = ''bar'', line = 7\<rparr>] 3 True
     = arch_hashCallstack sample_hash 2
      [\<lparr>pc = 0xdeadbeef, func = ''main'', line = 0\<rparr>, \<lparr>pc = 0x400100, func = ''foo'', line = 0\<rparr>,
       \<lparr>pc = 0x7f00abcd, func = ''libc'', line = 0\<rparr>] 3 True"
proof -
  have p: "3 \<le> length [\<lparr>pc = 0xdeadbeef, func = ''main'', line = 0\<rparr>,
                          \<lparr>pc = 0x400100, func = ''foo'', line = 0\<rparr>,
                          \<lparr>pc = 0x7f00abcd :: u64, func = ''libc'', line = 0\<rparr>]"
    "3 \<le> length [\<lparr>pc = 0xdeadbeef, func = ''main'', line = 0\<rparr>,
                   \<lparr>pc = 0x400100, func = ''foo'', line = 0\<rparr>,
                   \<lparr>pc = 0x1234 :: u64, func = ''bar'', line = 7\<rparr>]"
    "map pc (take (min 3 2) [\<lparr>pc = 0xdeadbeef, func = ''main'', line = 0\<rparr>,
                             \<lparr>pc = 0x400100, func = ''foo'', line = 0\<rparr>,
                             \<lparr>pc = 0x7f00abcd :: u64, func = ''libc'', line = 0\<rparr>])
     = map pc (take (min 3 2) [\<lparr>pc = 0xdeadbeef, func = ''main'', line = 0\<rparr>,
                               \<lparr>pc = 0x400100, func = ''foo'', line = 0\<rparr>,
                               \<lparr>pc = 0x1234, func = ''bar'', line = 7\<rparr>])"
    by simp_all
  note inst = arch_hashCallstack_major_frames[OF p, of sample_hash True]
  note digits = inst[THEN conjunct2, THEN conjunct1, rule_format, of "0xdeadbeef"]
  have u: "rev [0..<16] = [15, 14, 13, 12, 11, 10, 9, 8, 7, 6, 5, 4, 3, 2, 1, 0::nat]"
    by (simp add: numeral_eq_Suc)
  have 1: "arch_hashCallstack sample_hash 2
      [\<lparr>pc = 0xdeadbeef, func = ''main'', line = 0\<rparr>, \<lparr>pc = 0x400100, func = ''foo'', line = 0\<rparr>,
       \<lparr>pc = 0x7f00abcd, func = ''libc'', line = 0\<rparr>] 3 True
     = sample_hash ''eef'' XOR sample_hash ''100''"
    using inst[THEN conjunct1] by simp
  have 2: "regStr 0xdeadbeef = ''0x00000000deadbeef''"
    using digits[THEN conjunct1] by (simp add: u)
  have 3: "last3 (regStr 0xdeadbeef) = ''eef''"
    using digits[THEN conjunct2, THEN conjunct2] by simp
  from 1 2 3 inst[THEN conjunct2, THEN conjunct2] show ?thesis by (intro conjI)
qed

section \<open>Running the model\<close>

text \<open>Recursive functions are unfolded under their guards, so that the simplifier runs
  them on concrete inputs and stops on symbolic ones.\<close>

lemma hex_nat_small: "n < 16 \<Longrightarrow> hex_nat n = [hexdigit n]"
  by (simp add: hex_nat.simps)

lemma hex_nat_big: "16 \<le> n \<Longrightarrow> hex_nat n = hex_nat (n div 16) @ [hexdigit (n mod 16)]"
  by (subst hex_nat.simps) simp

lemma dec_nat_small: "n < 10 \<Longrightarrow> dec_nat n = [decdigit n]"
  by (simp add: dec_nat.simps)

lemma dec_nat_big: "10 \<le> n \<Longrightarrow> dec_nat n = dec_nat (n div 10) @ [decdigit (n mod 10)]"
  by (subst dec_nat.simps) simp

lemma hashLoop_step:
  "i < funcCnt \<Longrightarrow> i < k \<Longrightarrow>
   hashLoop uh k funcs funcCnt i h =
     hashLoop uh k funcs funcCnt (i + 1) (h XOR uh (last3 (regStr (pc (funcs ! i)))))"
  by (subst hashLoop.simps) simp

lemma hashLoop_stop: "\<not> (i < funcCnt \<and> i < k) \<Longrightarrow> hashLoop uh k funcs funcCnt i h = h"
  by (subst hashLoop.simps) auto

lemma bsearch64_empty: "hi \<le> lo \<Longrightarrow> bsearch64 arr lo hi key = - 1"
  by (subst bsearch64.simps) simp

lemma bsearch64_step:
  "lo < hi \<Longrightarrow>
   bsearch64 arr lo hi key =
     (if arr ! (lo + (hi - lo) div 2) = key then int (lo + (hi - lo) div 2)
      else if arr ! (lo + (hi - lo) div 2) < key then bsearch64 arr (lo + (hi - lo) div 2 + 1) hi key
      else bsearch64 arr lo (lo + (hi - lo) div 2) key)"
  by (subst bsearch64.simps) (simp add: Let_def)

lemma funcs_first:
  "(replicate HF_MAX_FUNCS z)[0 := f] = f # replicate 79 z"
  "replicate HF_MAX_FUNCS z ! 0 = z"
  by (simp_all add: HF_MAX_FUNCS_def numeral_eq_Suc)

lemma snprintf_fits: "length s < sz \<Longrightarrow> snprintf sz s = s"
  by (simp add: snprintf_def)

lemma util_ssnprintf_fits: "length str + length s < sz \<Longrightarrow> util_ssnprintf sz str s = str @ s"
  by (simp add: util_ssnprintf_def)

lemmas fmt_defs = hex_pad_def hexdigit_def dec_int_def decdigit_def fmt_p_def snprintf_fits PATH_MAX_def
  util_ssnprintf_fits regStr_def REGSIZEINCHAR_def last3_def hex_nat_small hex_nat_big
  dec_nat_small dec_nat_big

lemmas sample_defs = sample_x86_def sample_hfuzz_def sample_fuzzer_def sample_world_def
  sample_stop_def sample_hash_def

lemmas save_defs = arch_ptraceSaveData_def saveData_filter_def saveData_unwind_def saveData_hash_def
  saveData_saveCrash_def saveData_crashFileName_def arch_hashCallstack_def hashLoop_step hashLoop_stop
  SI_FROMUSER_def arch_btContainsWLSymbol_def arch_btContainsBLSymbol_def arch_btContainsSymbol_def
  files_copyFile_def arch_ptraceGenerateReport_def report_frame_def arch_sigs_descr_def
  HF_DYNFILE_SUB_MASK_def is_arm_def fastArray64Search_def bsearch64_step bsearch64_empty


section \<open>The stack hash of a signal stop\<close>














section \<open>Crashes that arch\_ptraceSaveData drops\<close>

text \<open>
  Claim C7, as amended. When the signal is not from a user, the PC is not 0 and the
  fault address is below \<^verbatim>\<open>ignoreAddr\<close>, the function returns at once: the counters,
  the worker's hash and crash file name and the files are what they were.
\<close>

theorem arch_ptraceSaveData_ignored_below:
  assumes "\<not> SI_FROMUSER (env_si E)" and "env_pc E \<noteq> 0"
    and "si_addr (env_si E) < ignoreAddr (hfuzz w)"
  shows "arch_ptraceSaveData P pid E w = Inr w"
  using assms by (simp add: arch_ptraceSaveData_def saveData_filter_def)

text \<open>The sixth scenario of the spec: a SIGSEGV at address 0x200 with \<^verbatim>\<open>ignoreAddr\<close> at
  0x10000.\<close>

theorem arch_ptraceSaveData_ignored_below_witness:
  "arch_ptraceSaveData sample_x86 77 sample_stop sample_world_ign = Inr sample_world_ign"
proof -
  have "\<not> SI_FROMUSER (env_si sample_stop)" and "env_pc sample_stop \<noteq> 0"
    and "si_addr (env_si sample_stop) < ignoreAddr (hfuzz sample_world_ign)"
    by (simp_all add: SI_FROMUSER_def sample_defs sample_world_ign_def)
  then show ?thesis by (rule arch_ptraceSaveData_ignored_below)
qed

text \<open>The claim without the condition on the PC fails: the same stop with the PC at 0 is
  not dropped. The crash is counted and its input is saved.\<close>

theorem arch_ptraceSaveData_pc_zero_counterexample:
  "\<not> SI_FROMUSER (env_si sample_pc_zero)
   \<and> si_addr (env_si sample_pc_zero) < ignoreAddr (hfuzz sample_world_ign)
   \<and> counters sample_world_ign = (0, 0, 0)
   \<and> map_sum id counters (arch_ptraceSaveData sample_x86 77 sample_pc_zero sample_world_ign)
       = Inr (1, 1, 0)
   \<and> map_sum id (crashFileName \<circ> fuzzer)
         (arch_ptraceSaveData sample_x86 77 sample_pc_zero sample_world_ign)
       = Inr ''/w/SIGSEGV.PC.0.STACK.0.CODE.1.ADDR.0x200.INSTR.mov.2016-01-01.00:00:00.77.fuzz''"
  by (simp add: save_defs fmt_defs sample_defs sample_world_ign_def sample_pc_zero_def Let_def
      counters_def)

text \<open>
  Claim C4. When the worker's crash file name is not empty and the hash it holds equals
  the hash of the new stop, the function returns before it counts the crash: the shared
  structure with its counters is unchanged, so are the files, and the worker keeps its
  crash file name, its hash and its report.
\<close>

theorem arch_ptraceSaveData_same_hash:
  assumes "crashFileName (fuzzer w) \<noteq> []"
    and "backtrace (fuzzer w) = fst (saveData_hash P (hfuzz w) E)"
  shows "\<exists>w'. arch_ptraceSaveData P pid E w = Inr w' \<and> hfuzz w' = hfuzz w \<and> files w' = files w
            \<and> crashFileName (fuzzer w') = crashFileName (fuzzer w)
            \<and> backtrace (fuzzer w') = backtrace (fuzzer w)
            \<and> report (fuzzer w') = report (fuzzer w)"
  using assms
  by (auto simp: arch_ptraceSaveData_def saveData_filter_def Let_def split: prod.splits)

lemma sample_stop_hash: "saveData_hash sample_x86 sample_hfuzz sample_stop = (0x4674, True)"
  by (simp add: save_defs fmt_defs sample_defs Let_def)

text \<open>The fourth scenario of the spec: the second SIGSEGV of a worker that has saved the
  first one.\<close>

theorem arch_ptraceSaveData_same_hash_witness:
  "\<exists>w'. arch_ptraceSaveData sample_x86 77 sample_stop sample_saved = Inr w'
        \<and> hfuzz w' = hfuzz sample_saved \<and> files w' = files sample_saved
        \<and> crashFileName (fuzzer w') = crashFileName (fuzzer sample_saved)
        \<and> backtrace (fuzzer w') = backtrace (fuzzer sample_saved)
        \<and> report (fuzzer w') = report (fuzzer sample_saved)"
proof -
  have "crashFileName (fuzzer sample_saved) \<noteq> []"
    by (simp add: sample_defs sample_saved_def)
  moreover have "backtrace (fuzzer sample_saved) = fst (saveData_hash sample_x86 (hfuzz sample_saved) sample_stop)"
    using sample_stop_hash by (simp add: sample_saved_def sample_world_def sample_fuzzer_def)
  ultimately show ?thesis by (rule arch_ptraceSaveData_same_hash)
qed

text \<open>The search of the model finds every hash that occurs in a sorted blacklist.\<close>

lemma bsearch64_finds:
  "sorted arr \<Longrightarrow> hi \<le> length arr \<Longrightarrow> \<exists>i. lo \<le> i \<and> i < hi \<and> arr ! i = key \<Longrightarrow>
   bsearch64 arr lo hi key \<noteq> - 1"
proof (induction arr lo hi key rule: bsearch64.induct)
  case (1 arr lo hi key)
  from "1.prems"(3) obtain i where i: "lo \<le> i" "i < hi" "arr ! i = key" by blast
  then have lh: "\<not> hi \<le> lo" by simp
  define mid where "mid = lo + (hi - lo) div 2"
  have m: "lo \<le> mid" "mid < hi" using lh by (auto simp: mid_def)
  have unf: "bsearch64 arr lo hi key =
      (if arr ! mid = key then int mid
       else if arr ! mid < key then bsearch64 arr (mid + 1) hi key
       else bsearch64 arr lo mid key)"
    using lh by (subst bsearch64.simps) (simp add: mid_def Let_def)
  show ?case
  proof (cases "arr ! mid = key")
    case True
    then show ?thesis by (simp add: unf)
  next
    case ne: False
    show ?thesis
    proof (cases "arr ! mid < key")
      case True
      have "mid < i"
      proof (rule ccontr)
        assume "\<not> mid < i"
        then have "arr ! i \<le> arr ! mid"
          using "1.prems"(1,2) m by (intro sorted_nth_mono) auto
        with True i show False by simp
      qed
      then have "\<exists>j. mid + 1 \<le> j \<and> j < hi \<and> arr ! j = key"
        using i by (intro exI[of _ i]) simp
      then have "bsearch64 arr (mid + 1) hi key \<noteq> - 1"
        using "1.IH"(1)[OF lh mid_def ne True "1.prems"(1,2)] by simp
      then show ?thesis using ne True by (simp add: unf)
    next
      case False
      have "i < mid"
      proof (rule ccontr)
        assume "\<not> i < mid"
        then have "arr ! mid \<le> arr ! i"
          using "1.prems"(1,2) i by (intro sorted_nth_mono) auto
        with False ne i show False by simp
      qed
      then have "\<exists>j. lo \<le> j \<and> j < mid \<and> arr ! j = key"
        using i by (intro exI[of _ i]) simp
      moreover have "mid \<le> length arr" using m "1.prems"(2) by simp
      ultimately have "bsearch64 arr lo mid key \<noteq> - 1"
        using "1.IH"(2)[OF lh mid_def ne False "1.prems"(1)] by simp
      then show ?thesis using ne False by (simp add: unf)
    qed
  qed
qed

lemma fastArray64Search_finds:
  "sorted bl \<Longrightarrow> key \<in> set bl \<Longrightarrow> fastArray64Search bl (length bl) key \<noteq> - 1"
  unfolding fastArray64Search_def
  by (rule bsearch64_finds) (auto simp: in_set_conv_nth)

text \<open>
  Claim C5. A crash that reaches the filters (it is not dropped for its address, nor as
  a repetition of the worker's last hash) and has no whitelisted symbol among its
  frames, and whose hash \<^verbatim>\<open>fastArray64Search\<close> finds in the blacklist, adds exactly 1 to
  \<^verbatim>\<open>blCrashesCnt\<close>; \<^verbatim>\<open>uniqueCrashesCnt\<close>, the files, the report and the crash file name
  stay as they were. The hash is the one the function has computed, the link register
  included where it is folded in.
\<close>

theorem arch_ptraceSaveData_hash_blacklisted:
  assumes "\<not> (\<not> SI_FROMUSER (env_si E) \<and> env_pc E \<noteq> 0 \<and> si_addr (env_si E) < ignoreAddr (hfuzz w))"
    and "\<not> (crashFileName (fuzzer w) \<noteq> [] \<and> backtrace (fuzzer w) = fst (saveData_hash P (hfuzz w) E))"
    and "case saveData_unwind E (saveUnique (hfuzz w)) of
           (funcs, funcCnt, su) \<Rightarrow> arch_btContainsWLSymbol (hfuzz w) funcCnt funcs = None"
    and "blacklist (hfuzz w) = Some bl"
    and "fastArray64Search bl (length bl) (fst (saveData_hash P (hfuzz w) E)) \<noteq> - 1"
  shows "\<exists>w'. arch_ptraceSaveData P pid E w = Inr w'
            \<and> blCrashesCnt (hfuzz w') = blCrashesCnt (hfuzz w) + 1
            \<and> uniqueCrashesCnt (hfuzz w') = uniqueCrashesCnt (hfuzz w)
            \<and> files w' = files w
            \<and> report (fuzzer w') = report (fuzzer w)
            \<and> crashFileName (fuzzer w') = crashFileName (fuzzer w)"
  using assms
  by (auto simp: arch_ptraceSaveData_def saveData_filter_def Let_def arch_btContainsWLSymbol_def
      split: prod.splits option.splits)

text \<open>The third scenario of the spec: the hash 0x4674 of the SIGSEGV is on the blacklist.\<close>

theorem arch_ptraceSaveData_hash_blacklisted_witness:
  "\<exists>w'. arch_ptraceSaveData sample_x86 77 sample_stop sample_blacklisted = Inr w'
        \<and> blCrashesCnt (hfuzz w') = blCrashesCnt (hfuzz sample_blacklisted) + 1
        \<and> uniqueCrashesCnt (hfuzz w') = uniqueCrashesCnt (hfuzz sample_blacklisted)
        \<and> files w' = files sample_blacklisted
        \<and> report (fuzzer w') = report (fuzzer sample_blacklisted)
        \<and> crashFileName (fuzzer w') = crashFileName (fuzzer sample_blacklisted)"
proof -
  have h: "saveData_hash sample_x86 (hfuzz sample_blacklisted) sample_stop = (0x4674, True)"
    by (simp add: save_defs fmt_defs sample_defs sample_blacklisted_def Let_def)
  have 1: "\<not> (\<not> SI_FROMUSER (env_si sample_stop) \<and> env_pc sample_stop \<noteq> 0
              \<and> si_addr (env_si sample_stop) < ignoreAddr (hfuzz sample_blacklisted))"
    by (simp add: sample_defs sample_blacklisted_def)
  have 2: "\<not> (crashFileName (fuzzer sample_blacklisted) \<noteq> []
              \<and> backtrace (fuzzer sample_blacklisted)
                  = fst (saveData_hash sample_x86 (hfuzz sample_blacklisted) sample_stop))"
    by (simp add: sample_defs sample_blacklisted_def)
  have 3: "case saveData_unwind sample_stop (saveUnique (hfuzz sample_blacklisted)) of
             (funcs, funcCnt, su) \<Rightarrow>
               arch_btContainsWLSymbol (hfuzz sample_blacklisted) funcCnt funcs = None"
    by (simp add: saveData_unwind_def arch_btContainsWLSymbol_def sample_defs sample_blacklisted_def
        Let_def)
  have 4: "blacklist (hfuzz sample_blacklisted) = Some [0x5, 0x4674, 0x11170]"
    by (simp add: sample_defs sample_blacklisted_def)
  have 5: "fastArray64Search [0x5, 0x4674, 0x11170] (length [0x5, 0x4674, 0x11170 :: u64])
             (fst (saveData_hash sample_x86 (hfuzz sample_blacklisted) sample_stop)) \<noteq> - 1"
    by (simp add: h fastArray64Search_def bsearch64_step bsearch64_empty)
  from 1 2 3 4 5 show ?thesis by (rule arch_ptraceSaveData_hash_blacklisted)
qed


section \<open>The parser of AddressSanitizer reports\<close>

lemmas asan_defs = asan_header_def asan_op_def asan_frame_target_def asan_frame_def asan_line_def
  arch_parseAsanReport_def getline_def lineptr_str_def strtok_r_def blk_store_def blk_load_def
  blk_str_def strncmp_eq_def strchr_idx_def strrchr_idx_def ptr_of_def ptr_add_def ptr_diff_def
  to_size_t_def framePrefix_def cstr_def NUL_def isspace_def hexval_def strip_sign_def
  strtoull16_def HF_FUNC_NAME_SZ_def HF_MAX_FUNCS_def funcs_zero_def sample_heap_def
  sample_asan_header_def

text \<open>On a line in which \<^verbatim>\<open>strstr\<close> finds the string at \<^verbatim>\<open>cAddr\<close>, the two tests of
  \<^verbatim>\<open>strncmp\<close> work the wrong way round: a line that starts with READ gives WRITE, any
  other line gives READ, and the operation is never left as it was.\<close>

lemma asan_op_inverted:
  assumes "a_cAddr st = At c" and "blk_str (a_buf st) (Off (int c)) = Inr needle"
    and "strstr_idx (lineptr_str st) needle \<noteq> None"
  shows "asan_op st = Inr (if strncmp_eq (lineptr_str st) ''READ'' 4 then ''WRITE'' else ''READ'')"
proof (cases "strncmp_eq (lineptr_str st) ''READ'' 4")
  case True
  then have "take 4 (lineptr_str st) = ''READ''" by (simp add: strncmp_eq_def)
  then have "hd (lineptr_str st) = CHR ''R''"
    by (cases "lineptr_str st") (auto simp: take_Cons')
  then have "take 5 (lineptr_str st) \<noteq> ''WRITE''"
    by (cases "lineptr_str st") (auto simp: take_Cons')
  then show ?thesis using True assms by (simp add: asan_op_def strncmp_eq_def)
next
  case False
  then show ?thesis using assms by (simp add: asan_op_def)
qed

text \<open>
  Claim C3 does not hold of the code. The parser run on the report of a read access, with
  no white space in front of its lines: the header gives the crash address 0xdeadc0de,
  the next line contains it and starts with READ, and the operation comes out as WRITE.
  The function returns one frame and has unlinked the report.
\<close>

theorem arch_parseAsanReport_read_line:
  "arch_parseAsanReport sample_x86 sample_heap sample_hfuzz 77 (replicate HF_MAX_FUNCS funcs_zero)
     0 ''UNKNOWN'' sample_asan_files
   = Inr (1, (replicate HF_MAX_FUNCS funcs_zero)
               [0 := \<lparr>pc = 0xaa860177, func = ''/system/lib/libc.so'', line = 0x19617\<rparr>],
          0xdeadc0de, ''WRITE'', [''/in/a'' \<mapsto> ''AAAA''])"
  by (simp add: sample_defs sample_asan_files_def sample_asan_log_def asan_defs fmt_defs Let_def)

lemma asan_frame_target_Inr:
  assumes "asan_frame_target buf t = Inr r"
  shows "\<exists>i j. strchr_idx (cstr (drop t buf)) CHR ''('' = Some i
           \<and> strrchr_idx (cstr (drop t buf)) CHR '')'' = Some j
           \<and> 0 \<le> int t + int j - int i - 1
           \<and> fst r = buf[nat (int t + int j - int i - 1) := NUL]"
proof -
  from assms obtain i where i: "strchr_idx (cstr (drop t buf)) CHR ''('' = Some i"
    by (cases "strchr_idx (cstr (drop t buf)) CHR ''(''")
       (auto simp: asan_frame_target_def ptr_add_def ptr_of_def Let_def)
  from assms i obtain j where j: "strrchr_idx (cstr (drop t buf)) CHR '')'' = Some j"
    by (cases "strrchr_idx (cstr (drop t buf)) CHR '')''")
       (auto simp: asan_frame_target_def ptr_add_def ptr_of_def ptr_diff_def Let_def)
  from assms i j have "0 \<le> int t + int j - int i - 1"
    by (auto simp: asan_frame_target_def ptr_add_def ptr_of_def ptr_diff_def Let_def blk_store_def
        split: if_splits)
  moreover have e: "nat (int t + (int j + (- int i - 1))) = nat (int t + int j - int i - 1)"
    by simp
  have "fst r = buf[nat (int t + int j - int i - 1) := NUL]"
    using assms i j
    by (auto simp: asan_frame_target_def ptr_add_def ptr_of_def ptr_diff_def Let_def blk_store_def e
        split: if_splits sum.splits)
  ultimately show ?thesis using i j by blast
qed

lemma asan_frame_target_None:
  assumes "asan_frame_target buf t = Inr (b, None)"
  shows "strchr_idx (cstr (drop t buf)) CHR ''+'' = None"
proof -
  from asan_frame_target_Inr[OF assms] obtain i j where
    ij: "strchr_idx (cstr (drop t buf)) CHR ''('' = Some i"
        "strrchr_idx (cstr (drop t buf)) CHR '')'' = Some j" by blast
  show ?thesis
  proof (cases "strchr_idx (cstr (drop t buf)) CHR ''+''")
    case None
    then show ?thesis .
  next
    case (Some k)
    with assms ij show ?thesis
      by (auto simp: asan_frame_target_def ptr_add_def ptr_of_def ptr_diff_def Let_def blk_store_def
          split: if_splits sum.splits)
  qed
qed

lemma asan_frame_target_null:
  assumes "strchr_idx (cstr (drop t buf)) CHR ''('' = None
           \<or> strrchr_idx (cstr (drop t buf)) CHR '')'' = None"
  shows "asan_frame_target buf t = Inl NullPointerArithmetic"
  using assms
  by (auto simp: asan_frame_target_def ptr_add_def ptr_of_def ptr_diff_def Let_def
      split: option.splits)

lemma asan_frame_target_front:
  assumes "strchr_idx (cstr (drop t buf)) CHR ''('' = Some i"
    and "strrchr_idx (cstr (drop t buf)) CHR '')'' = Some j"
    and "int t + int j - int i - 1 < 0"
  shows "asan_frame_target buf t = Inl StoreOutsideBlock"
  using assms
  by (auto simp: asan_frame_target_def ptr_add_def ptr_of_def ptr_diff_def Let_def blk_store_def)

lemma asan_frame_target_swapped:
  assumes "strchr_idx (cstr (drop t buf)) CHR ''('' = Some i"
    and "strrchr_idx (cstr (drop t buf)) CHR '')'' = Some j"
    and "strchr_idx (cstr (drop t buf)) CHR ''+'' = None"
    and "j < i" and "i + 1 \<le> t + j" and "t < length buf"
  shows "asan_frame_target buf t = Inr (buf[t + j - i - 1 := NUL], None)"
proof -
  have n: "nat (int t + (int j + (- int i - 1))) = t + j - Suc i"
    using assms(5) by simp
  have "t + j - i - 1 < length buf" using assms(4,6) by simp
  then show ?thesis using assms(1-3,5) n
    by (simp add: asan_frame_target_def ptr_add_def ptr_of_def ptr_diff_def Let_def blk_store_def)
qed

lemma asan_frame_Inr:
  assumes "a_frameIdx st < HF_MAX_FUNCS" and "asan_frame st = Inr c"
  shows "\<exists>b1 tok0 s1 b2 tok1 s2 b3 t s3 i j.
           strtok_r (a_buf st) (a_lp st) = (b1, tok0, s1) \<and> strtok_r b1 s1 = (b2, tok1, s2)
           \<and> strtok_r b2 s2 = (b3, Off t, s3)
           \<and> strchr_idx (cstr (drop (nat t) b3)) CHR ''('' = Some i
           \<and> strrchr_idx (cstr (drop (nat t) b3)) CHR '')'' = Some j
           \<and> 0 \<le> int (nat t) + int j - int i - 1"
proof -
  obtain b1 tok0 s1 where 1: "strtok_r (a_buf st) (a_lp st) = (b1, tok0, s1)"
    by (cases "strtok_r (a_buf st) (a_lp st)") auto
  obtain b2 tok1 s2 where 2: "strtok_r b1 s1 = (b2, tok1, s2)"
    by (cases "strtok_r b1 s1") auto
  obtain b3 tok2 s3 where 3: "strtok_r b2 s2 = (b3, tok2, s3)"
    by (cases "strtok_r b2 s2") auto
  from assms 1 2 3 obtain t where t: "tok2 = Off t"
    by (cases tok2; cases tok1) (auto simp: asan_frame_def Let_def)
  from assms 1 2 3 t obtain r where "asan_frame_target b3 (nat t) = Inr r"
    by (cases tok1) (auto simp: asan_frame_def Let_def split: sum.splits)
  from asan_frame_target_Inr[OF this] 1 2 3 t show ?thesis by blast
qed

text \<open>
  Claim C10, as amended. In the handling of a frame line, the sum
  \<^verbatim>\<open>strchr(targetStr, '(') + 1\<close> and the store \<^verbatim>\<open>targetStr[endOff - startOff] = 0\<close> come
  before the test of the three pointers. So the step goes through only if the token has
  a \<^verbatim>\<open>(\<close> and a \<^verbatim>\<open>)\<close> and the address of the store is not in front of the block that holds
  the line; and whenever it goes through, the store has been done. Without one of the
  two characters the step fails on arithmetic with the null pointer. The \<^verbatim>\<open>(\<close> need not
  stand before the \<^verbatim>\<open>)\<close>: with the last \<^verbatim>\<open>)\<close> in front of the first \<^verbatim>\<open>(\<close> the index is
  negative and the byte is written in front of the token; that is a failure only if the
  address is in front of the block. The test can stop none of this: its branch for an
  invalid entry is reached, after the store, only when the token has both characters and
  lacks the \<^verbatim>\<open>+\<close>. The same holds of a whole frame line with its third token, the one
  behind the frame number and the PC.
\<close>

theorem asan_frame_needs_parentheses:
  "(asan_frame_target buf t = Inr r \<longrightarrow>
      (\<exists>i j. strchr_idx (cstr (drop t buf)) CHR ''('' = Some i
         \<and> strrchr_idx (cstr (drop t buf)) CHR '')'' = Some j
         \<and> 0 \<le> int t + int j - int i - 1
         \<and> fst r = buf[nat (int t + int j - int i - 1) := NUL]))
   \<and> (asan_frame_target buf2 t2 = Inr (b, None) \<longrightarrow>
        strchr_idx (cstr (drop t2 buf2)) CHR ''+'' = None)
   \<and> (strchr_idx (cstr (drop t3 buf3)) CHR ''('' = None
        \<or> strrchr_idx (cstr (drop t3 buf3)) CHR '')'' = None \<longrightarrow>
        asan_frame_target buf3 t3 = Inl NullPointerArithmetic)
   \<and> (strchr_idx (cstr (drop t4 buf4)) CHR ''('' = Some i4
        \<and> strrchr_idx (cstr (drop t4 buf4)) CHR '')'' = Some j4
        \<and> int t4 + int j4 - int i4 - 1 < 0 \<longrightarrow>
        asan_frame_target buf4 t4 = Inl StoreOutsideBlock)
   \<and> (strchr_idx (cstr (drop t5 buf5)) CHR ''('' = Some i5
        \<and> strrchr_idx (cstr (drop t5 buf5)) CHR '')'' = Some j5
        \<and> strchr_idx (cstr (drop t5 buf5)) CHR ''+'' = None
        \<and> j5 < i5 \<and> i5 + 1 \<le> t5 + j5 \<and> t5 < length buf5 \<longrightarrow>
        asan_frame_target buf5 t5 = Inr (buf5[t5 + j5 - i5 - 1 := NUL], None))
   \<and> (a_frameIdx st < HF_MAX_FUNCS \<and> asan_frame st = Inr c \<longrightarrow>
        (\<exists>b1 tok0 s1 b2 tok1 s2 b3 t s3 i j.
           strtok_r (a_buf st) (a_lp st) = (b1, tok0, s1) \<and> strtok_r b1 s1 = (b2, tok1, s2)
           \<and> strtok_r b2 s2 = (b3, Off t, s3)
           \<and> strchr_idx (cstr (drop (nat t) b3)) CHR ''('' = Some i
           \<and> strrchr_idx (cstr (drop (nat t) b3)) CHR '')'' = Some j
           \<and> 0 \<le> int (nat t) + int j - int i - 1))"
  using asan_frame_target_Inr[of buf t r] asan_frame_target_None[of buf2 t2 b]
    asan_frame_target_null[of t3 buf3] asan_frame_target_front[of t4 buf4 i4 j4]
    asan_frame_target_swapped[of t5 buf5 i5 j5] asan_frame_Inr[of st c]
  by blast

text \<open>The theorem at work: the token of a frame without symbols; a token without \<^verbatim>\<open>+\<close>; the
  token \<^verbatim>\<open>in\<close> of a frame with symbols; the two characters the wrong way round at the
  start of the block, and behind a frame number and a PC; and a whole frame line.\<close>

theorem asan_frame_needs_parentheses_witness:
  "asan_frame_target (''(/system/lib/libc.so+0x196177)\<newline>'' @ [NUL]) 0
     = Inr (''(/system/lib/libc.so+0x19617'' @ [NUL] @ '')\<newline>'' @ [NUL],
            Some (''/system/lib/libc.so'', 0x19617))
   \<and> (\<exists>i j. strchr_idx ''(/system/lib/libc.so+0x196177)\<newline>'' CHR ''('' = Some i
          \<and> strrchr_idx ''(/system/lib/libc.so+0x196177)\<newline>'' CHR '')'' = Some j
          \<and> 0 \<le> int j - int i - 1)
   \<and> asan_frame_target (''(libc.so)'' @ [NUL]) 0 = Inr (''(libc.s'' @ [NUL] @ '')'' @ [NUL], None)
   \<and> strchr_idx ''(libc.so)'' CHR ''+'' = None
   \<and> asan_frame_target (''in'' @ [NUL]) 0 = Inl NullPointerArithmetic
   \<and> asan_frame_target ('')('' @ [NUL]) 0 = Inl StoreOutsideBlock
   \<and> asan_frame_target (''#0'' @ [NUL] @ ''0xaa860177'' @ [NUL] @ '')(\<newline>'' @ [NUL]) 14
       = Inr (''#0'' @ [NUL] @ ''0xaa86017'' @ [NUL, NUL] @ '')(\<newline>'' @ [NUL], None)
   \<and> (\<exists>b1 tok0 s1 b2 tok1 s2 b3 t s3 i j.
         strtok_r (''#0 0xaa860177 (/system/lib/libc.so+0x196177)\<newline>'' @ [NUL]) 0 = (b1, tok0, s1)
         \<and> strtok_r b1 s1 = (b2, tok1, s2) \<and> strtok_r b2 s2 = (b3, Off t, s3)
         \<and> strchr_idx (cstr (drop (nat t) b3)) CHR ''('' = Some i
         \<and> strrchr_idx (cstr (drop (nat t) b3)) CHR '')'' = Some j
         \<and> 0 \<le> int (nat t) + int j - int i - 1)"
proof -
  define st where "st = \<lparr>a_buf = ''#0 0xaa860177 (/system/lib/libc.so+0x196177)\<newline>'' @ [NUL],
    a_lp = 0, a_cAddr = Null, a_headerFound = True, a_crashAddr = 0xdeadc0de, a_op = ''UNKNOWN'',
    a_frameIdx = 0, a_funcs = replicate HF_MAX_FUNCS funcs_zero\<rparr>"
  have 1: "asan_frame_target (''(/system/lib/libc.so+0x196177)\<newline>'' @ [NUL]) 0
             = Inr (''(/system/lib/libc.so+0x19617'' @ [NUL] @ '')\<newline>'' @ [NUL],
                    Some (''/system/lib/libc.so'', 0x19617))"
    by (simp add: asan_defs fmt_defs Let_def)
  have 2: "asan_frame_target (''(libc.so)'' @ [NUL]) 0 = Inr (''(libc.s'' @ [NUL] @ '')'' @ [NUL], None)"
    by (simp add: asan_defs fmt_defs Let_def)
  have 3: "strchr_idx (cstr (drop 0 (''in'' @ [NUL]))) CHR ''('' = None
           \<or> strrchr_idx (cstr (drop 0 (''in'' @ [NUL]))) CHR '')'' = None"
    by (simp add: strchr_idx_def cstr_def NUL_def)
  have 4: "strchr_idx (cstr (drop 0 ('')('' @ [NUL]))) CHR ''('' = Some 1
           \<and> strrchr_idx (cstr (drop 0 ('')('' @ [NUL]))) CHR '')'' = Some 0
           \<and> int 0 + int 0 - int 1 - 1 < 0"
    by (simp add: strchr_idx_def strrchr_idx_def cstr_def NUL_def)
  have 5: "strchr_idx (cstr (drop 14 (''#0'' @ [NUL] @ ''0xaa860177'' @ [NUL] @ '')(\<newline>'' @ [NUL])))
             CHR ''('' = Some 1
           \<and> strrchr_idx (cstr (drop 14 (''#0'' @ [NUL] @ ''0xaa860177'' @ [NUL] @ '')(\<newline>'' @ [NUL])))
               CHR '')'' = Some 0
           \<and> strchr_idx (cstr (drop 14 (''#0'' @ [NUL] @ ''0xaa860177'' @ [NUL] @ '')(\<newline>'' @ [NUL])))
               CHR ''+'' = None
           \<and> (0::nat) < 1 \<and> (1::nat) + 1 \<le> 14 + 0
           \<and> 14 < length (''#0'' @ [NUL] @ ''0xaa860177'' @ [NUL] @ '')(\<newline>'' @ [NUL])"
    by (simp add: strchr_idx_def strrchr_idx_def cstr_def NUL_def)
  have 6: "a_frameIdx st < HF_MAX_FUNCS"
    by (simp add: st_def HF_MAX_FUNCS_def)
  have 7: "asan_frame st
             = Inr (Continue (st\<lparr>a_buf := ''#0'' @ [NUL] @ ''0xaa860177'' @ [NUL]
                                    @ ''(/system/lib/libc.so+0x19617'' @ [NUL] @ '')\<newline>'' @ [NUL],
                    a_funcs := (a_funcs st)
                      [0 := \<lparr>pc = 0xaa860177, func = ''/system/lib/libc.so'', line = 0x19617\<rparr>],
                    a_frameIdx := 1\<rparr>))"
    by (simp add: asan_defs fmt_defs Let_def st_def)
  have 8: "a_buf st = ''#0 0xaa860177 (/system/lib/libc.so+0x196177)\<newline>'' @ [NUL]" "a_lp st = 0"
    by (simp_all add: st_def)
  note inst = asan_frame_needs_parentheses
      [where buf = "''(/system/lib/libc.so+0x196177)\<newline>'' @ [NUL]" and t = 0
         and r = "(''(/system/lib/libc.so+0x19617'' @ [NUL] @ '')\<newline>'' @ [NUL],
                   Some (''/system/lib/libc.so'', 0x19617))"
         and ?buf2.0 = "''(libc.so)'' @ [NUL]" and ?t2.0 = 0
         and b = "''(libc.s'' @ [NUL] @ '')'' @ [NUL]"
         and ?buf3.0 = "''in'' @ [NUL]" and ?t3.0 = 0
         and ?buf4.0 = "'')('' @ [NUL]" and ?t4.0 = 0 and ?i4.0 = 1 and ?j4.0 = 0
         and ?buf5.0 = "''#0'' @ [NUL] @ ''0xaa860177'' @ [NUL] @ '')(\<newline>'' @ [NUL]"
         and ?t5.0 = 14 and ?i5.0 = 1 and ?j5.0 = 0
         and st = st
         and c = "Continue (st\<lparr>a_buf := ''#0'' @ [NUL] @ ''0xaa860177'' @ [NUL]
                                    @ ''(/system/lib/libc.so+0x19617'' @ [NUL] @ '')\<newline>'' @ [NUL],
                    a_funcs := (a_funcs st)
                      [0 := \<lparr>pc = 0xaa860177, func = ''/system/lib/libc.so'', line = 0x19617\<rparr>],
                    a_frameIdx := 1\<rparr>)"]
  have c1: "\<exists>i j. strchr_idx (cstr (drop 0 (''(/system/lib/libc.so+0x196177)\<newline>'' @ [NUL]))) CHR ''(''
                  = Some i
              \<and> strrchr_idx (cstr (drop 0 (''(/system/lib/libc.so+0x196177)\<newline>'' @ [NUL]))) CHR '')''
                  = Some j
              \<and> 0 \<le> int 0 + int j - int i - 1"
    using inst 1 by blast
  have c2: "strchr_idx (cstr (drop 0 (''(libc.so)'' @ [NUL]))) CHR ''+'' = None"
    using inst 2 by blast
  have c3: "asan_frame_target (''in'' @ [NUL]) 0 = Inl NullPointerArithmetic"
    using inst 3 by blast
  have c4: "asan_frame_target ('')('' @ [NUL]) 0 = Inl StoreOutsideBlock"
    using inst 4 by blast
  have c5: "asan_frame_target (''#0'' @ [NUL] @ ''0xaa860177'' @ [NUL] @ '')(\<newline>'' @ [NUL]) 14
              = Inr ((''#0'' @ [NUL] @ ''0xaa860177'' @ [NUL] @ '')(\<newline>'' @ [NUL])
                       [14 + 0 - 1 - 1 := NUL], None)"
    using inst 5 by blast
  have c6: "\<exists>b1 tok0 s1 b2 tok1 s2 b3 t s3 i j.
           strtok_r (a_buf st) (a_lp st) = (b1, tok0, s1) \<and> strtok_r b1 s1 = (b2, tok1, s2)
           \<and> strtok_r b2 s2 = (b3, Off t, s3)
           \<and> strchr_idx (cstr (drop (nat t) b3)) CHR ''('' = Some i
           \<and> strrchr_idx (cstr (drop (nat t) b3)) CHR '')'' = Some j
           \<and> 0 \<le> int (nat t) + int j - int i - 1"
    using inst 6 7 by blast
  have e1: "cstr (drop 0 (''(/system/lib/libc.so+0x196177)\<newline>'' @ [NUL]))
              = ''(/system/lib/libc.so+0x196177)\<newline>''"
    and e2: "cstr (drop 0 (''(libc.so)'' @ [NUL])) = ''(libc.so)''"
    and e5: "(''#0'' @ [NUL] @ ''0xaa860177'' @ [NUL] @ '')(\<newline>'' @ [NUL])[14 + 0 - 1 - 1 := NUL]
              = ''#0'' @ [NUL] @ ''0xaa86017'' @ [NUL, NUL] @ '')(\<newline>'' @ [NUL]"
    by (simp_all add: cstr_def NUL_def)
  from c1 have c1': "\<exists>i j. strchr_idx ''(/system/lib/libc.so+0x196177)\<newline>'' CHR ''('' = Some i
          \<and> strrchr_idx ''(/system/lib/libc.so+0x196177)\<newline>'' CHR '')'' = Some j
          \<and> 0 \<le> int j - int i - 1"
    unfolding e1 by simp
  from 1 c1' 2 c2[unfolded e2] c3 c4 c5[unfolded e5] c6[unfolded 8] show ?thesis
    by (intro conjI)
qed

text \<open>The claim as stated fails: the third token of the frame line has its \<^verbatim>\<open>)\<close> in front
  of its \<^verbatim>\<open>(\<close>, and the parser goes through. The store falls on the last digit of the
  PC, which has been read by then; the frame is counted, without a symbol; the function
  returns and has unlinked the report.\<close>

theorem asan_swapped_parentheses_counterexample:
  "strchr_idx '')(\<newline>'' CHR ''('' = Some 1 \<and> strrchr_idx '')(\<newline>'' CHR '')'' = Some 0
   \<and> arch_parseAsanReport sample_x86 sample_heap sample_hfuzz 77 (replicate HF_MAX_FUNCS funcs_zero)
       0 ''UNKNOWN'' sample_swapped_files
     = Inr (1, (replicate HF_MAX_FUNCS funcs_zero)[0 := \<lparr>pc = 0xaa860177, func = [], line = 0\<rparr>],
            0xdeadc0de, ''UNKNOWN'', [''/in/a'' \<mapsto> ''AAAA''])"
  by (simp add: sample_defs sample_swapped_files_def asan_defs fmt_defs Let_def)

section \<open>The copy of the input and the first hit of a sanitizer exit\<close>

lemma saveData_filter_Next:
  "saveData_filter P E w = Next (su, funcs, funcCnt, w1) \<Longrightarrow>
     uniqueCrashesCnt (hfuzz w1) = uniqueCrashesCnt (hfuzz w) \<and> report (fuzzer w1) = report (fuzzer w)
     \<and> files w1 = files w"
  by (auto simp: saveData_filter_def Let_def split: prod.splits if_splits option.splits)

lemma saveData_crashFileName_dyn:
  "saveData_crashFileName pid (hf\<lparr>dynFileIterExpire := d\<rparr>) fz E su
     = saveData_crashFileName pid hf fz E su"
  by (simp add: saveData_crashFileName_def Let_def)

lemma saveData_saveCrash_exists:
  assumes "files w1 (saveData_crashFileName pid (hfuzz w1) (fuzzer w1) E su) \<noteq> None"
  shows "saveData_saveCrash P pid E su funcs funcCnt w1 =
           Inr \<lparr>hfuzz = (hfuzz w1)\<lparr>dynFileIterExpire :=
                                      dynFileIterExpire (hfuzz w1) AND HF_DYNFILE_SUB_MASK\<rparr>,
                fuzzer = (fuzzer w1)\<lparr>crashFileName := []\<rparr>, files = files w1\<rparr>"
  using assms
  by (auto simp: saveData_saveCrash_def Let_def files_copyFile_def saveData_crashFileName_dyn)

lemma exitSaveData_crashFileName_nonempty:
  "exitSaveData_crashFileName P hf fz X exitCode pc0 op crashAddr \<noteq> []"
  by (simp add: exitSaveData_crashFileName_def snprintf_def PATH_MAX_def Let_def)

text \<open>The parser leaves the files as they are when the report is not there, and takes
  the report away when it returns a frame count.\<close>

lemma arch_parseAsanReport_files:
  assumes "arch_parseAsanReport P H hf pid funcs crashAddr op fls = Inr (n, funcs1, crashAddr1, op1, fls1)"
  shows "(n = - 1 \<and> fls1 = fls)
       \<or> (0 \<le> n \<and> fls1 = fls(snprintf PATH_MAX
                                 (workDir hf @ ''/'' @ p_logprefix P @ ''.'' @ dec_int pid) := None))"
  using assms
  by (auto simp: arch_parseAsanReport_def Let_def split: option.splits sum.splits if_splits)

lemma exitSaveData_name_Next:
  assumes "exitSaveData_name P pid X exitCode w = Inr (Next (op, crashAddr, funcs, funcCnt, w1))"
  shows "uniqueCrashesCnt (hfuzz w1) = uniqueCrashesCnt (hfuzz w)"
    and "report (fuzzer w1) = report (fuzzer w)"
    and "crashFileName (fuzzer w1) \<noteq> []"
    and "files w1 =
           (if exitCode = p_asan_exit P
            then (files w)(snprintf PATH_MAX
                             (workDir (hfuzz w) @ ''/'' @ p_logprefix P @ ''.'' @ dec_int pid) := None)
            else files w)"
proof -
  show "uniqueCrashesCnt (hfuzz w1) = uniqueCrashesCnt (hfuzz w)"
    and "report (fuzzer w1) = report (fuzzer w)"
    and "crashFileName (fuzzer w1) \<noteq> []"
    using assms
    by (auto simp: exitSaveData_name_def Let_def exitSaveData_crashFileName_nonempty
        split: prod.splits if_splits sum.splits)
  show "files w1 =
           (if exitCode = p_asan_exit P
            then (files w)(snprintf PATH_MAX
                             (workDir (hfuzz w) @ ''/'' @ p_logprefix P @ ''.'' @ dec_int pid) := None)
            else files w)"
  proof (cases "exitCode = p_asan_exit P")
    case False
    with assms show ?thesis by (auto simp: exitSaveData_name_def Let_def)
  next
    case True
    with assms obtain n funcs1 crashAddr1 op1 fls1 where
      p: "arch_parseAsanReport P (x_heap X)
            ((hfuzz w)\<lparr>crashesCnt := crashesCnt (hfuzz w) + 1,
                       dynFileIterExpire := dynFileIterExpire (hfuzz w) AND HF_DYNFILE_SUB_MASK\<rparr>)
            pid (replicate HF_MAX_FUNCS funcs_zero) 0 ''UNKNOWN'' (files w)
          = Inr (n, funcs1, crashAddr1, op1, fls1)"
      and n: "n \<noteq> - 1" and f: "files w1 = fls1"
      by (auto simp: exitSaveData_name_def Let_def split: sum.splits prod.splits if_splits)
    from arch_parseAsanReport_files[OF p] n f True show ?thesis by auto
  qed
qed

lemma exitSaveData_copy_exists:
  assumes "files w1 (crashFileName (fuzzer w1)) \<noteq> None"
  shows "exitSaveData_copy P pid X exitCode op crashAddr funcs funcCnt w1 =
           Inr \<lparr>hfuzz = hfuzz w1, fuzzer = (fuzzer w1)\<lparr>backtrace := 0\<rparr>, files = files w1\<rparr>"
  using assms by (auto simp: exitSaveData_copy_def files_copyFile_def)

lemmas exit_defs = arch_ptraceExitSaveData_def exitSaveData_name_def exitSaveData_copy_def
  exitSaveData_crashFileName_def exitSaveData_report_def arch_sanCodeToStr_def files_copyFile_def
  HF_DYNFILE_SUB_MASK_def

text \<open>
  Claim C6, as amended. When the copy of the input fails because the crash file exists
  already, neither path counts a unique crash or writes a report. The path of signals
  (\<^verbatim>\<open>arch_ptraceSaveData\<close>) clears the worker's crash file name and changes no file. The
  path of sanitizer exits (\<^verbatim>\<open>arch_ptraceExitSaveData\<close>) does not clear the name: it sets
  the worker's stack hash to 0 and leaves the name of the existing file, which is not
  empty, in the crash file name; of the files it changes none but the report of ASan,
  which the parser has unlinked.
\<close>

theorem copy_destination_exists:
  "(saveData_filter P E w = Next (su, funcs, funcCnt, w1)
      \<and> files w1 (saveData_crashFileName pid (hfuzz w1) (fuzzer w1) E su) \<noteq> None
    \<longrightarrow> (\<exists>w'. arch_ptraceSaveData P pid E w = Inr w' \<and> crashFileName (fuzzer w') = []
              \<and> uniqueCrashesCnt (hfuzz w') = uniqueCrashesCnt (hfuzz w)
              \<and> report (fuzzer w') = report (fuzzer w) \<and> files w' = files w))
   \<and> (crashFileName (fuzzer v) = []
      \<and> exitSaveData_name P pid X exitCode v = Inr (Next (op, crashAddr, funcs', funcCnt', v1))
      \<and> files v1 (crashFileName (fuzzer v1)) \<noteq> None
    \<longrightarrow> (\<exists>v'. arch_ptraceExitSaveData P pid X exitCode v = Inr v'
              \<and> crashFileName (fuzzer v') = crashFileName (fuzzer v1) \<and> crashFileName (fuzzer v') \<noteq> []
              \<and> backtrace (fuzzer v') = 0
              \<and> uniqueCrashesCnt (hfuzz v') = uniqueCrashesCnt (hfuzz v)
              \<and> report (fuzzer v') = report (fuzzer v) \<and> files v' = files v1
              \<and> files v' =
                  (if exitCode = p_asan_exit P
                   then (files v)(snprintf PATH_MAX
                           (workDir (hfuzz v) @ ''/'' @ p_logprefix P @ ''.'' @ dec_int pid) := None)
                   else files v)))"
proof (intro conjI impI)
  assume "saveData_filter P E w = Next (su, funcs, funcCnt, w1)
      \<and> files w1 (saveData_crashFileName pid (hfuzz w1) (fuzzer w1) E su) \<noteq> None"
  then show "\<exists>w'. arch_ptraceSaveData P pid E w = Inr w' \<and> crashFileName (fuzzer w') = []
              \<and> uniqueCrashesCnt (hfuzz w') = uniqueCrashesCnt (hfuzz w)
              \<and> report (fuzzer w') = report (fuzzer w) \<and> files w' = files w"
    using saveData_filter_Next[of P E w su funcs funcCnt w1]
    by (simp add: arch_ptraceSaveData_def saveData_saveCrash_exists)
next
  assume a: "crashFileName (fuzzer v) = []
      \<and> exitSaveData_name P pid X exitCode v = Inr (Next (op, crashAddr, funcs', funcCnt', v1))
      \<and> files v1 (crashFileName (fuzzer v1)) \<noteq> None"
  then have n: "exitSaveData_name P pid X exitCode v = Inr (Next (op, crashAddr, funcs', funcCnt', v1))"
    by simp
  from a show "\<exists>v'. arch_ptraceExitSaveData P pid X exitCode v = Inr v'
              \<and> crashFileName (fuzzer v') = crashFileName (fuzzer v1) \<and> crashFileName (fuzzer v') \<noteq> []
              \<and> backtrace (fuzzer v') = 0
              \<and> uniqueCrashesCnt (hfuzz v') = uniqueCrashesCnt (hfuzz v)
              \<and> report (fuzzer v') = report (fuzzer v) \<and> files v' = files v1
              \<and> files v' =
                  (if exitCode = p_asan_exit P
                   then (files v)(snprintf PATH_MAX
                           (workDir (hfuzz v) @ ''/'' @ p_logprefix P @ ''.'' @ dec_int pid) := None)
                   else files v)"
    using exitSaveData_name_Next[OF n]
    by (simp add: arch_ptraceExitSaveData_def exitSaveData_copy_exists)
qed

text \<open>The theorem at work on two workers whose crash file exists already: the SIGSEGV
  with three frames, and the exit of process 77 with the code of ASan, whose report is
  parsed and unlinked.\<close>

theorem copy_destination_exists_witness:
  "(\<exists>w'. arch_ptraceSaveData sample_x86 77 sample_stop sample_dup = Inr w'
         \<and> crashFileName (fuzzer w') = []
         \<and> uniqueCrashesCnt (hfuzz w') = uniqueCrashesCnt (hfuzz sample_dup)
         \<and> report (fuzzer w') = report (fuzzer sample_dup) \<and> files w' = files sample_dup)
   \<and> (\<exists>v'. arch_ptraceExitSaveData sample_x86 77 sample_exit 104 sample_asan_dup = Inr v'
         \<and> crashFileName (fuzzer v')
             = ''/w/ASAN.PC.aa860177.STACK.bed1.CODE.WRITE.ADDR.0xdeadc0de.INSTR.[UNKNOWN].fuzz''
         \<and> backtrace (fuzzer v') = 0
         \<and> uniqueCrashesCnt (hfuzz v') = uniqueCrashesCnt (hfuzz sample_asan_dup)
         \<and> report (fuzzer v') = report (fuzzer sample_asan_dup)
         \<and> files v' = (files sample_asan_dup)(''/w/HF.sanitizer.log.77'' := None))"
proof -
  define w1 where "w1 = sample_dup\<lparr>hfuzz := sample_hfuzz\<lparr>crashesCnt := 1\<rparr>\<rparr>"
  define v1 where "v1 = \<lparr>hfuzz = sample_hfuzz\<lparr>crashesCnt := 1\<rparr>,
      fuzzer = sample_fuzzer\<lparr>backtrace := 0xbed1, crashFileName :=
        ''/w/ASAN.PC.aa860177.STACK.bed1.CODE.WRITE.ADDR.0xdeadc0de.INSTR.[UNKNOWN].fuzz''\<rparr>,
      files = [''/in/a'' \<mapsto> ''AAAA'',
        ''/w/ASAN.PC.aa860177.STACK.bed1.CODE.WRITE.ADDR.0xdeadc0de.INSTR.[UNKNOWN].fuzz'' \<mapsto> ''AAAA'']\<rparr>"
  have 1: "saveData_filter sample_x86 sample_stop sample_dup
             = Next (True, env_frames sample_stop @ replicate 77 funcs_zero, 3, w1)"
    by (simp add: save_defs fmt_defs sample_defs sample_dup_def Let_def w1_def HF_MAX_FUNCS_def)
  have 2: "files w1 (saveData_crashFileName 77 (hfuzz w1) (fuzzer w1) sample_stop True) \<noteq> None"
    by (simp add: save_defs fmt_defs sample_defs sample_dup_def Let_def w1_def)
  have 3: "crashFileName (fuzzer sample_asan_dup) = []"
    by (simp add: sample_defs sample_asan_dup_def)
  have p: "arch_parseAsanReport sample_x86 sample_heap
             (sample_hfuzz\<lparr>crashesCnt := 1\<rparr>) 77 (replicate HF_MAX_FUNCS funcs_zero) 0 ''UNKNOWN''
             (files sample_asan_dup)
           = Inr (1, (replicate HF_MAX_FUNCS funcs_zero)
                       [0 := \<lparr>pc = 0xaa860177, func = ''/system/lib/libc.so'', line = 0x19617\<rparr>],
                  0xdeadc0de, ''WRITE'',
                  [''/in/a'' \<mapsto> ''AAAA'',
                   ''/w/ASAN.PC.aa860177.STACK.bed1.CODE.WRITE.ADDR.0xdeadc0de.INSTR.[UNKNOWN].fuzz''
                     \<mapsto> ''AAAA''])"
    by (simp add: sample_defs sample_asan_dup_def sample_asan_log_def asan_defs fmt_defs Let_def
        fun_upd_twist)
  have 4: "exitSaveData_name sample_x86 77 sample_exit 104 sample_asan_dup
             = Inr (Next (''WRITE'', 0xdeadc0de,
                          (replicate HF_MAX_FUNCS funcs_zero)
                            [0 := \<lparr>pc = 0xaa860177, func = ''/system/lib/libc.so'', line = 0x19617\<rparr>],
                          1, v1))"
  proof -
    have h: "hfuzz sample_asan_dup = sample_hfuzz" "fuzzer sample_asan_dup = sample_fuzzer"
      "x_heap sample_exit = sample_heap" "p_asan_exit sample_x86 = 104"
      "dynFileIterExpire sample_hfuzz = 0" "crashesCnt sample_hfuzz = 0"
      by (simp_all add: sample_defs sample_asan_dup_def sample_exit_def)
    have d: "sample_hfuzz\<lparr>crashesCnt := 1, dynFileIterExpire := 0\<rparr> = sample_hfuzz\<lparr>crashesCnt := 1\<rparr>"
      by (simp add: sample_defs)
    show ?thesis
      unfolding exitSaveData_name_def
      by (simp add: h d p Let_def)
         (simp add: v1_def exitSaveData_crashFileName_def arch_sanCodeToStr_def fmt_defs sample_defs
            sample_exit_def save_defs funcs_first Let_def)
  qed
  have 5: "files v1 (crashFileName (fuzzer v1)) \<noteq> None"
    by (simp add: v1_def)
  have 6: "crashFileName (fuzzer v1)
             = ''/w/ASAN.PC.aa860177.STACK.bed1.CODE.WRITE.ADDR.0xdeadc0de.INSTR.[UNKNOWN].fuzz''"
    by (simp add: v1_def)
  have 7: "p_asan_exit sample_x86 = 104"
    "snprintf PATH_MAX (workDir (hfuzz sample_asan_dup) @ ''/'' @ p_logprefix sample_x86 @ ''.''
        @ dec_int 77) = ''/w/HF.sanitizer.log.77''"
    by (simp_all add: sample_defs sample_asan_dup_def fmt_defs)
  show ?thesis
    using copy_destination_exists
      [where P = sample_x86 and E = sample_stop and w = sample_dup and su = True
         and funcs = "env_frames sample_stop @ replicate 77 funcs_zero" and funcCnt = 3
         and ?w1.0 = w1 and pid = 77 and v = sample_asan_dup and X = sample_exit and exitCode = 104
         and op = "''WRITE''" and crashAddr = "0xdeadc0de"
         and funcs' = "(replicate HF_MAX_FUNCS funcs_zero)
                         [0 := \<lparr>pc = 0xaa860177, func = ''/system/lib/libc.so'', line = 0x19617\<rparr>]"
         and funcCnt' = 1 and ?v1.0 = v1]
      1 2 3 4 5 6 7
    by auto
qed

text \<open>The claim as stated fails on the path of sanitizer exits: the copy fails because the
  destination exists, and the crash file name is not cleared. It holds the name of the
  existing file; the stack hash 0x4674 of the worker has become 0.\<close>

theorem exit_duplicate_counterexample:
  "crashFileName (fuzzer sample_dup) = []
   \<and> files sample_dup ''/w/MSAN.PC.0.STACK.4674.CODE.UNKNOWN.ADDR.(nil).INSTR.[UNKNOWN].fuzz''
       = Some ''AAAA''
   \<and> map_sum id (crashFileName \<circ> fuzzer)
         (arch_ptraceExitSaveData sample_x86 77 sample_exit 103 sample_dup)
       = Inr ''/w/MSAN.PC.0.STACK.4674.CODE.UNKNOWN.ADDR.(nil).INSTR.[UNKNOWN].fuzz''
   \<and> map_sum id (backtrace \<circ> fuzzer)
         (arch_ptraceExitSaveData sample_x86 77 sample_exit 103 sample_dup)
       = Inr 0"
  by (simp add: exit_defs fmt_defs sample_defs sample_dup_def sample_exit_def Let_def)




section \<open>The end mark of the list of threads\<close>

lemma listThreads_loop_length:
  "listThreads_loop tasks thrSz count entries = Inr (ok, count1, tasks1) \<Longrightarrow>
     length tasks1 = length tasks"
proof (induction tasks thrSz count entries rule: listThreads_loop.induct)
  case (1 tasks thrSz count)
  then show ?case by simp
next
  case (2 tasks thrSz count rest)
  then show ?case by simp
next
  case (3 tasks thrSz count d_name rest)
  then show ?case
    by (auto simp: Let_def split: if_splits)
qed

text \<open>A directory with at least \<open>thrSz\<close> entries that are task ids fills the array up to
  \<open>thrSz\<close>.\<close>

lemma listThreads_loop_full:
  "\<forall>n\<in>set names. to_pid_t (strtol10 n) \<noteq> 0 \<Longrightarrow> count < thrSz \<Longrightarrow>
   thrSz \<le> count + length names \<Longrightarrow> thrSz < length tasks \<Longrightarrow>
   \<exists>tasks1. listThreads_loop tasks thrSz count (map Entry names) = Inr (True, thrSz, tasks1)"
proof (induction names arbitrary: tasks count)
  case Nil
  then show ?case by simp
next
  case (Cons n names)
  show ?case
  proof (cases "count + 1 \<ge> thrSz")
    case True
    then have "count + 1 = thrSz" using Cons.prems by simp
    then show ?thesis using Cons.prems by (auto simp: Let_def)
  next
    case False
    then have "\<exists>tasks1. listThreads_loop (tasks[count := to_pid_t (strtol10 n)]) thrSz (count + 1)
                           (map Entry names) = Inr (True, thrSz, tasks1)"
      using Cons.prems by (intro Cons.IH) auto
    then show ?thesis using Cons.prems False by (auto simp: Let_def)
  qed
qed

lemmas thr_defs = arch_listThreads_def listThreads_terminate_def to_pid_t_def strtol10_def strip_sign_def
  decval_def isspace_def

text \<open>
  Claim C9. The array has \<open>thrSz + 1\<close> entries. When the loop is left with \<open>count\<close>
  task ids collected, the function stores the end mark 0 at index \<open>count + 1\<close>. The
  store is inside the array exactly when \<open>count < thrSz\<close>; the function then returns
  whether there is at least one task. When \<open>count = thrSz\<close> the index \<open>count + 1\<close> is
  the length of the array, one past its last entry, and the store is out of bounds.
  That happens whenever the directory has at least \<open>thrSz\<close> entries that are task ids,
  for \<open>thrSz\<close> at least 1.
\<close>

theorem arch_listThreads_terminator:
  "(length tasks = thrSz + 1 \<and> listThreads_loop tasks thrSz 0 entries = Inr (True, count, tasks1) \<longrightarrow>
      length tasks1 = thrSz + 1
      \<and> ((\<exists>tasks2. listThreads_terminate tasks1 count = Inr tasks2) \<longleftrightarrow> count < thrSz)
      \<and> (count + 1 = length tasks1 \<longleftrightarrow> count = thrSz)
      \<and> arch_listThreads tasks thrSz (Some entries)
          = (if count < thrSz then Inr (1 \<le> count, tasks1[count + 1 := 0])
             else Inl IndexOutOfBounds))
   \<and> (length tasks' = thrSz' + 1 \<and> 0 < thrSz' \<and> thrSz' \<le> length names
        \<and> (\<forall>n\<in>set names. to_pid_t (strtol10 n) \<noteq> 0) \<longrightarrow>
      arch_listThreads tasks' thrSz' (Some (map Entry names)) = Inl IndexOutOfBounds)"
proof (intro conjI impI)
  assume a: "length tasks = thrSz + 1
             \<and> listThreads_loop tasks thrSz 0 entries = Inr (True, count, tasks1)"
  then show l: "length tasks1 = thrSz + 1" using listThreads_loop_length by fastforce
  then show "(\<exists>tasks2. listThreads_terminate tasks1 count = Inr tasks2) \<longleftrightarrow> count < thrSz"
    by (auto simp: listThreads_terminate_def)
  show "count + 1 = length tasks1 \<longleftrightarrow> count = thrSz" using l by auto
  show "arch_listThreads tasks thrSz (Some entries)
          = (if count < thrSz then Inr (1 \<le> count, tasks1[count + 1 := 0])
             else Inl IndexOutOfBounds)"
    using a l by (simp add: arch_listThreads_def listThreads_terminate_def)
next
  assume b: "length tasks' = thrSz' + 1 \<and> 0 < thrSz' \<and> thrSz' \<le> length names
        \<and> (\<forall>n\<in>set names. to_pid_t (strtol10 n) \<noteq> 0)"
  then obtain tasks1 where
    t: "listThreads_loop tasks' thrSz' 0 (map Entry names) = Inr (True, thrSz', tasks1)"
    using listThreads_loop_full[of names 0 thrSz' tasks'] by auto
  then have "length tasks1 = thrSz' + 1" using b listThreads_loop_length by fastforce
  then show "arch_listThreads tasks' thrSz' (Some (map Entry names)) = Inl IndexOutOfBounds"
    using t by (simp add: arch_listThreads_def listThreads_terminate_def)
qed

text \<open>The theorem at work with room for two tasks: a process with one thread, whose end
  mark is stored at index 2, and a process with three threads, where the store has the
  index 3 of an array of 3 entries.\<close>

theorem arch_listThreads_terminator_witness:
  "arch_listThreads [0, 0, 0] 2 (Some [Entry ''.'', Entry ''..'', Entry ''100'']) = Inr (True, [100, 0, 0])
   \<and> arch_listThreads [0, 0, 0] 2 (Some (map Entry [''100'', ''101'', ''102''])) = Inl IndexOutOfBounds"
proof -
  have 1: "length [0, 0, 0 :: int] = 2 + 1
           \<and> listThreads_loop [0, 0, 0] 2 0 [Entry ''.'', Entry ''..'', Entry ''100'']
               = Inr (True, 1, [100, 0, 0])"
    by (simp add: thr_defs Let_def)
  have 2: "length [0, 0, 0 :: int] = 2 + 1 \<and> (0::nat) < 2 \<and> 2 \<le> length [''100'', ''101'', ''102'']
           \<and> (\<forall>n\<in>set [''100'', ''101'', ''102'']. to_pid_t (strtol10 n) \<noteq> 0)"
    by (simp add: thr_defs Let_def)
  show ?thesis
    using arch_listThreads_terminator
      [where tasks = "[0, 0, 0]" and thrSz = 2 and entries = "[Entry ''.'', Entry ''..'', Entry ''100'']"
         and count = 1 and ?tasks1.0 = "[100, 0, 0]" and tasks' = "[0, 0, 0]" and thrSz' = 2
         and names = "[''100'', ''101'', ''102'']"]
      1 2
    by simp
qed

text \<open>The array of \<^verbatim>\<open>arch_ptraceAttach\<close> and \<^verbatim>\<open>arch_ptraceDetach\<close>, of
  \<^verbatim>\<open>MAX_THREAD_IN_TASK + 1\<close> entries: a process with \<^verbatim>\<open>MAX_THREAD_IN_TASK\<close> threads or more
  makes the store leave it.\<close>

lemma arch_ptraceAttach_tasks_full:
  assumes "MAX_THREAD_IN_TASK \<le> length names" and "\<forall>n\<in>set names. to_pid_t (strtol10 n) \<noteq> 0"
  shows "arch_listThreads attach_tasks MAX_THREAD_IN_TASK (Some (map Entry names))
           = Inl IndexOutOfBounds"
proof -
  have l: "length attach_tasks = MAX_THREAD_IN_TASK + 1"
    by (simp add: attach_tasks_def)
  have "0 < MAX_THREAD_IN_TASK" by (simp add: MAX_THREAD_IN_TASK_def)
  then obtain tasks1 where
    t: "listThreads_loop attach_tasks MAX_THREAD_IN_TASK 0 (map Entry names)
          = Inr (True, MAX_THREAD_IN_TASK, tasks1)"
    using listThreads_loop_full[of names 0 MAX_THREAD_IN_TASK attach_tasks] assms l by auto
  then have "length tasks1 = MAX_THREAD_IN_TASK + 1"
    using l listThreads_loop_length by fastforce
  then show ?thesis
    using t by (simp add: arch_listThreads_def listThreads_terminate_def)
qed


end
